theory Spec2Isabelle
  imports Complex_Main
begin

section \<open>Python strings and numbers\<close>

text \<open>
  The fdf reader of \<^verbatim>\<open>sisl/io/siesta/fdf.py\<close> works on text lines. Strings are
  modelled as \<^typ>\<open>string\<close> restricted to ASCII: the white space of \<^verbatim>\<open>str.split\<close> and
  \<^verbatim>\<open>str.strip\<close> is the ASCII white space of Python 3 (codes 9 to 13, 28 to 31 and 32),
  and \<^verbatim>\<open>str.lower\<close> maps \<^verbatim>\<open>A-Z\<close> to \<^verbatim>\<open>a-z\<close>.
\<close>

definition is_space :: "char \<Rightarrow> bool" where
  "is_space c =
     (let n = (of_char c :: nat) in n = 32 \<or> (9 \<le> n \<and> n \<le> 13) \<or> (28 \<le> n \<and> n \<le> 31))"

definition is_upper :: "char \<Rightarrow> bool" where
  "is_upper c = (let n = (of_char c :: nat) in 65 \<le> n \<and> n \<le> 90)"

definition lower_char :: "char \<Rightarrow> char" where
  "lower_char c =
     (if is_upper c
      then (case c of Char b0 b1 b2 b3 b4 b5 b6 b7 \<Rightarrow> Char b0 b1 b2 b3 b4 True b6 b7)
      else c)"

definition lower :: "string \<Rightarrow> string" where
  "lower s = map lower_char s"

definition strip :: "string \<Rightarrow> string" where
  "strip s = rev (dropWhile is_space (rev (dropWhile is_space s)))"

text \<open>\<^verbatim>\<open>s.split()\<close>: the maximal runs of characters that are not white space.\<close>

fun split_acc :: "string \<Rightarrow> string \<Rightarrow> string list" where
  "split_acc cur [] = (if cur = [] then [] else [rev cur])"
| "split_acc cur (c # cs) =
     (if is_space c then (if cur = [] then split_acc [] cs else rev cur # split_acc [] cs)
      else split_acc (c # cur) cs)"

definition split :: "string \<Rightarrow> string list" where
  "split s = split_acc [] s"

text \<open>\<^verbatim>\<open>' '.join(ls)\<close>\<close>

fun join_sp :: "string list \<Rightarrow> string" where
  "join_sp [] = []"
| "join_sp [x] = x"
| "join_sp (x # y # ys) = x @ '' '' @ join_sp (y # ys)"

definition startswith :: "string \<Rightarrow> string \<Rightarrow> bool" where
  "startswith s p = (take (length p) s = p)"

text \<open>\<^verbatim>\<open>a in b\<close> for strings: \<open>a\<close> occurs as a substring of \<open>b\<close>.\<close>

fun substr_in :: "string \<Rightarrow> string \<Rightarrow> bool" where
  "substr_in a [] = (a = [])"
| "substr_in a (c # cs) = (startswith (c # cs) a \<or> substr_in a cs)"

subsection \<open>Numbers\<close>

text \<open>
  A Python \<^verbatim>\<open>float\<close> is modelled as an exact real, or an infinity, or not-a-number:
  rounding and overflow of IEEE arithmetic are not modelled. \<open>Infty True\<close> is the negative
  infinity.
\<close>

datatype pyfloat = Fin real | Infty bool | NaN

fun fmul :: "pyfloat \<Rightarrow> pyfloat \<Rightarrow> pyfloat" where
  "fmul (Fin x) (Fin y) = Fin (x * y)"
| "fmul (Fin x) (Infty n) = (if x = 0 then NaN else Infty (n \<noteq> (x < 0)))"
| "fmul (Infty n) (Fin y) = (if y = 0 then NaN else Infty (n \<noteq> (y < 0)))"
| "fmul (Infty n) (Infty m) = Infty (n \<noteq> m)"
| "fmul NaN _ = NaN"
| "fmul _ NaN = NaN"

fun fadd :: "pyfloat \<Rightarrow> pyfloat \<Rightarrow> pyfloat" where
  "fadd (Fin x) (Fin y) = Fin (x + y)"
| "fadd (Fin x) (Infty n) = Infty n"
| "fadd (Infty n) (Fin y) = Infty n"
| "fadd (Infty n) (Infty m) = (if n = m then Infty n else NaN)"
| "fadd NaN _ = NaN"
| "fadd _ NaN = NaN"

definition is_digit :: "char \<Rightarrow> bool" where
  "is_digit c = (let n = (of_char c :: nat) in 48 \<le> n \<and> n \<le> 57)"

definition digit_val :: "char \<Rightarrow> nat" where
  "digit_val c = of_char c - 48"

text \<open>
  The grammar of \<^verbatim>\<open>float(s)\<close> and \<^verbatim>\<open>int(s)\<close> of Python 3:
  \<^verbatim>\<open>digitpart ::= digit (["_"] digit)*\<close>,
  \<^verbatim>\<open>number ::= [digitpart] "." digitpart | digitpart ["."]\<close>,
  \<^verbatim>\<open>exponent ::= ("e" | "E") [sign] digitpart\<close>,
  \<^verbatim>\<open>floatvalue ::= [sign] (number [exponent] | "inf" | "infinity" | "nan")\<close>
  (the words in any case), and \<^verbatim>\<open>[sign] digitpart\<close> for \<^verbatim>\<open>int\<close>; white space around
  the value is ignored. A string outside the grammar raises \<^verbatim>\<open>ValueError\<close>: \<open>None\<close>.
\<close>

fun digitpart_tl :: "string \<Rightarrow> bool" where
  "digitpart_tl [] = True"
| "digitpart_tl [c] = is_digit c"
| "digitpart_tl (c # d # cs) =
     (if is_digit c then digitpart_tl (d # cs)
      else c = CHR ''_'' \<and> is_digit d \<and> digitpart_tl cs)"

definition digitpart :: "string \<Rightarrow> bool" where
  "digitpart s = (case s of [] \<Rightarrow> False | c # cs \<Rightarrow> is_digit c \<and> digitpart_tl cs)"

definition digits_val :: "string \<Rightarrow> nat" where
  "digits_val s = foldl (\<lambda>a c. 10 * a + digit_val c) 0 (filter is_digit s)"

definition split_sign :: "string \<Rightarrow> bool \<times> string" where
  "split_sign s =
     (case s of [] \<Rightarrow> (False, [])
      | c # r \<Rightarrow> if c = CHR ''+'' then (False, r) else if c = CHR ''-'' then (True, r)
                 else (False, s))"

definition py_int :: "string \<Rightarrow> int option" where
  "py_int s0 =
     (let (neg, a) = split_sign (strip s0) in
      if digitpart a then Some (if neg then - int (digits_val a) else int (digits_val a))
      else None)"

definition mantissa :: "string \<Rightarrow> real option" where
  "mantissa m =
     (let ip = takeWhile (\<lambda>c. c \<noteq> CHR ''.'') m; r = dropWhile (\<lambda>c. c \<noteq> CHR ''.'') m in
      case r of
        [] \<Rightarrow> if digitpart ip then Some (real (digits_val ip)) else None
      | _ # fp \<Rightarrow>
          if (ip = [] \<or> digitpart ip) \<and> (fp = [] \<or> digitpart fp) \<and> \<not> (ip = [] \<and> fp = [])
          then Some (real (digits_val ip)
                     + real (digits_val fp) / 10 ^ length (filter is_digit fp))
          else None)"

definition is_e :: "char \<Rightarrow> bool" where
  "is_e c = (c = CHR ''e'' \<or> c = CHR ''E'')"

definition floatnumber :: "string \<Rightarrow> real option" where
  "floatnumber a =
     (let m = takeWhile (\<lambda>c. \<not> is_e c) a; r = dropWhile (\<lambda>c. \<not> is_e c) a in
      case mantissa m of
        None \<Rightarrow> None
      | Some v \<Rightarrow>
          (case r of
             [] \<Rightarrow> Some v
           | _ # ex \<Rightarrow>
               (let (neg, d) = split_sign ex in
                if digitpart d
                then Some (if neg then v / 10 ^ digits_val d else v * 10 ^ digits_val d)
                else None)))"

definition py_float :: "string \<Rightarrow> pyfloat option" where
  "py_float s0 =
     (let (neg, a) = split_sign (strip s0) in
      if lower a = ''inf'' \<or> lower a = ''infinity'' then Some (Infty neg)
      else if lower a = ''nan'' then Some NaN
      else (case floatnumber a of
              None \<Rightarrow> None
            | Some v \<Rightarrow> Some (Fin (if neg then - v else v))))"

subsection \<open>Values and errors\<close>

text \<open>
  The Python values that the reader handles, and the exceptions it can raise. A function
  that can raise returns \<open>error + 'a\<close>, with \<open>Inl\<close> the exception.
\<close>

datatype pyval =
    PNone
  | PBool bool
  | PInt int
  | PFloat pyfloat
  | PStr string
  | PList "pyval list"
  | PTuple "pyval list"
  | PArray "pyfloat list"

datatype error =
    AttributeError
  | IndexError
  | IOError
  | NotImplementedError
  | SileError
  | SislError
  | TypeError
  | UnboundLocalError
  | ValueError

text \<open>\<^verbatim>\<open>type(d)(value)\<close> for a string \<open>value\<close>: the constructor of the type of \<open>d\<close>.\<close>

fun py_construct :: "pyval \<Rightarrow> string \<Rightarrow> error + pyval" where
  "py_construct PNone v = Inl TypeError"
| "py_construct (PBool _) v = Inr (PBool (v \<noteq> []))"
| "py_construct (PInt _) v = (case py_int v of None \<Rightarrow> Inl ValueError | Some i \<Rightarrow> Inr (PInt i))"
| "py_construct (PFloat _) v =
     (case py_float v of None \<Rightarrow> Inl ValueError | Some x \<Rightarrow> Inr (PFloat x))"
| "py_construct (PStr _) v = Inr (PStr v)"
| "py_construct (PList _) v = Inr (PList (map (\<lambda>c. PStr [c]) v))"
| "py_construct (PTuple _) v = Inr (PTuple (map (\<lambda>c. PStr [c]) v))"
| "py_construct (PArray _) v = Inl TypeError"

section \<open>Type classification\<close>

text \<open>
  What \<^verbatim>\<open>_read_label\<close> returns (\<open>None\<close> apart): the rest of a line, or the lines of a
  block. \<^verbatim>\<open>_type\<close> also accepts a numeric array.
\<close>

datatype raw = Str string | Block "string list" | Array "pyfloat list"

definition LOGICAL_TRUE :: "string list" where
  "LOGICAL_TRUE = [''.true.'', ''true'', ''yes'', ''y'', ''t'']"

definition LOGICAL_FALSE :: "string list" where
  "LOGICAL_FALSE = [''.false.'', ''false'', ''no'', ''n'', ''f'']"

definition LOGICAL :: "string list" where
  "LOGICAL = LOGICAL_FALSE @ LOGICAL_TRUE"

text \<open>
  \<^verbatim>\<open>fdfSileSiesta._type\<close>: the result is \<open>None\<close> or one of the characters
  \<^verbatim>\<open>B a b r i p n\<close>.
\<close>

definition fdf_type :: "raw option \<Rightarrow> char option" where
  "fdf_type value =
     (case value of
        None \<Rightarrow> None
      | Some (Block _) \<Rightarrow> Some CHR ''B''
      | Some (Array _) \<Rightarrow> Some CHR ''a''
      | Some (Str s) \<Rightarrow>
          (let values = split s in
           if length values = 1 then
             (let fdf = lower (values ! 0) in
              if fdf \<in> set LOGICAL then Some CHR ''b''
              else if py_float fdf \<noteq> None
                   then (if CHR ''.'' \<in> set fdf then Some CHR ''r'' else Some CHR ''i'')
                   else Some CHR ''n'')
           else if length values = 2 then
             (if py_float (values ! 0) \<noteq> None then Some CHR ''p'' else Some CHR ''n'')
           else Some CHR ''n''))"

section \<open>The label store\<close>

text \<open>
  A file is the list of its lines, each without its line terminator; \<open>fh.readline()\<close> at
  line \<open>p\<close> returns that line followed by a newline, and the empty string at the end of
  the file. File names are taken relative to the base directory of the sile
  (\<^verbatim>\<open>_tofile\<close>); a name that is not bound does not exist (\<^verbatim>\<open>isfile\<close>).
  The state of an \<^verbatim>\<open>fdfSileSiesta\<close> object is its open handle \<^verbatim>\<open>fh\<close> (file name and
  line position) and the list \<^verbatim>\<open>_parent_fh\<close> of the handles of the including files,
  the innermost last; \<open>new_sile f\<close> is a sile that has just been opened on \<open>f\<close>.
\<close>

type_synonym files = "string \<Rightarrow> string list option"

type_synonym handle = "string \<times> nat"

record sile =
  fh :: handle
  parent_fh :: "handle list"

definition new_sile :: "string \<Rightarrow> sile" where
  "new_sile f = \<lparr>fh = (f, 0), parent_fh = []\<rparr>"

definition newline :: char where
  "newline = CHR 0x0A"

definition comment :: "char list" where
  "comment = [CHR ''#'', CHR ''!'', CHR '';'']"

definition lines_of :: "files \<Rightarrow> string \<Rightarrow> string list" where
  "lines_of fs f = (case fs f of None \<Rightarrow> [] | Some ls \<Rightarrow> ls)"

text \<open>
  Modelled from the spec: \<^verbatim>\<open>Sile.readline\<close> of the base class (\<^verbatim>\<open>sisl/io/sile.py\<close> is not
  part of the sources at hand). The scan skips comment lines, the lines whose first
  character after leading white space is one of the comment markers; \<open>next_line\<close> returns
  the first other line and the number of lines consumed.
\<close>

definition starts_with_list :: "string \<Rightarrow> char list \<Rightarrow> bool" where
  "starts_with_list l cs = (case strip l of [] \<Rightarrow> False | c # _ \<Rightarrow> c \<in> set cs)"

fun next_line :: "string list \<Rightarrow> string \<times> nat" where
  "next_line [] = ([], 0)"
| "next_line (l # ls) =
     (if starts_with_list (l @ [newline]) comment
      then (case next_line ls of (r, k) \<Rightarrow> (r, Suc k))
      else (l @ [newline], 1))"

definition readline :: "files \<Rightarrow> sile \<Rightarrow> string \<times> sile" where
  "readline fs s =
     (case fh s of (f, p) \<Rightarrow>
        (case next_line (drop p (lines_of fs f)) of (l, k) \<Rightarrow> (l, s\<lparr>fh := (f, p + k)\<rparr>)))"

text \<open>\<^verbatim>\<open>_pushfile\<close>, \<^verbatim>\<open>_popfile\<close> and \<^verbatim>\<open>_seek\<close>; the warning of \<^verbatim>\<open>_pushfile\<close> is not modelled.\<close>

definition pushfile :: "files \<Rightarrow> sile \<Rightarrow> string \<Rightarrow> sile" where
  "pushfile fs s f =
     (if fs f \<noteq> None then s\<lparr>parent_fh := parent_fh s @ [fh s], fh := (f, 0)\<rparr> else s)"

definition popfile :: "sile \<Rightarrow> bool \<times> sile" where
  "popfile s =
     (if length (parent_fh s) > 0
      then (True, s\<lparr>fh := last (parent_fh s), parent_fh := butlast (parent_fh s)\<rparr>)
      else (False, s))"

function seek_loop :: "sile \<Rightarrow> sile" where
  "seek_loop s = (case popfile s of (ok, s') \<Rightarrow> if ok then seek_loop s' else s')"
  by pat_completeness auto
termination
  by (relation "measure (\<lambda>s. length (parent_fh s))") (auto simp: popfile_def split: if_splits)

definition seek :: "sile \<Rightarrow> sile" where
  "seek s = (let s' = seek_loop s in s'\<lparr>fh := (fst (fh s'), 0)\<rparr>)"

text \<open>The helpers of \<^verbatim>\<open>_read_label\<close>.\<close>

definition tolabel :: "string \<Rightarrow> string" where
  "tolabel label =
     filter (\<lambda>c. c \<noteq> CHR ''.'')
       (filter (\<lambda>c. c \<noteq> CHR ''-'') (filter (\<lambda>c. c \<noteq> CHR ''_'') (lower label)))"

definition valid_line :: "string \<Rightarrow> bool" where
  "valid_line line =
     (let ls = strip line in if length ls = 0 then False else \<not> (ls ! 0 \<in> set comment))"

text \<open>
  The body of a block: the loop
  \<^verbatim>\<open>while not tolabel(l).startswith('%endblock')\<close>. Every test of the loop condition
  takes one unit of fuel, and \<open>None\<close> says that the fuel did not suffice.
\<close>

fun read_block :: "nat \<Rightarrow> files \<Rightarrow> sile \<Rightarrow> string \<Rightarrow> string list \<Rightarrow> (string list \<times> sile) option"
  where
  "read_block 0 fs s l lines = None"
| "read_block (Suc n) fs s l lines =
     (if startswith (tolabel l) ''%endblock'' then Some (lines, s)
      else (case readline fs s of (l', s') \<Rightarrow>
              read_block n fs s' (strip l') (if length l > 0 then lines @ [l] else lines)))"

text \<open>
  \<^verbatim>\<open>process_line\<close> returns the value found on the line, \<open>None\<close> if the line does not hold
  the label, or an exception, together with the state of the sile. \<open>nested f\<close> is the
  outcome of \<^verbatim>\<open>fdfSileSiesta(f)._read_label(label)\<close> on the piped file \<open>f\<close>.
\<close>

definition index_of :: "'a \<Rightarrow> 'a list \<Rightarrow> nat" where
  "index_of x xs = length (takeWhile (\<lambda>y. y \<noteq> x) xs)"

definition process_line ::
  "nat \<Rightarrow> (string \<Rightarrow> (error + raw option) option) \<Rightarrow> files \<Rightarrow> string \<Rightarrow> sile \<Rightarrow> string
     \<Rightarrow> ((error + raw option) \<times> sile) option" where
  "process_line n nested fs labell s line =
     (let ls = split line in
      if length ls = 0 then Some (Inr None, s)
      else
        let lsl = map tolabel ls in
        if ''<'' \<in> set lsl then
          (let idx = index_of ''<'' lsl in
           if lsl ! 0 = ''%block'' \<and> lsl ! 1 = labell then
             (if length ls \<le> 3 then Some (Inl IndexError, s)
              else (case fs (ls ! 3) of
                      None \<Rightarrow> Some (Inl IOError, s)
                    | Some lines \<Rightarrow>
                        Some (Inr (Some (Block (map strip (filter valid_line lines)))), s)))
           else if labell \<in> set (take idx lsl) then
             (if length ls \<le> idx + 1 then Some (Inl IndexError, s)
              else (case nested (ls ! (idx + 1)) of
                      None \<Rightarrow> None
                    | Some r \<Rightarrow> Some (r, s)))
           else Some (Inr None, s))
        else if lsl ! 0 = labell then Some (Inr (Some (Str (strip (join_sp (tl ls))))), s)
        else if lsl ! 0 = ''%block'' then
          (if length lsl \<le> 1 then Some (Inl IndexError, s)
           else if lsl ! 1 = labell then
             (case readline fs s of (l, s') \<Rightarrow>
                (case read_block n fs s' (strip l) [] of
                   None \<Rightarrow> None
                 | Some (lines, s'') \<Rightarrow> Some (Inr (Some (Block lines)), s'')))
           else Some (Inr None, s))
        else if lsl ! 0 = ''%include'' then
          (if length ls \<le> 1 then Some (Inl IndexError, s)
           else Some (Inr None, pushfile fs s (ls ! 1)))
        else Some (Inr None, s))"

text \<open>
  The reading loop of \<^verbatim>\<open>_read_label\<close>: \<open>first\<close> marks the read before the
  \<^verbatim>\<open>while l is None\<close> loop, where the end of the file returns \<open>None\<close> at once. Every
  line read and every lookup in a piped file takes one unit of fuel.
\<close>

fun scan :: "nat \<Rightarrow> files \<Rightarrow> string \<Rightarrow> bool \<Rightarrow> sile \<Rightarrow> ((error + raw option) \<times> sile) option" where
  "scan 0 fs label first s = None"
| "scan (Suc n) fs label first s =
     (case readline fs s of (l0, s1) \<Rightarrow>
        (let l = takeWhile (\<lambda>c. c \<noteq> CHR ''#'') l0 in
         if length l = 0 \<and> first then Some (Inr None, s1)
         else
           (case (if length l = 0 then popfile s1 else (True, s1)) of (ok, s2) \<Rightarrow>
              if \<not> ok then Some (Inr None, s2)
              else
                (case process_line n
                        (\<lambda>f. case fs f of
                                None \<Rightarrow> Some (Inl IOError)
                              | Some _ \<Rightarrow>
                                  map_option fst
                                    (scan n fs label True \<lparr>fh = (f, 0), parent_fh = []\<rparr>))
                        fs (tolabel label) s2 l of
                   None \<Rightarrow> None
                 | Some (Inr None, s3) \<Rightarrow> scan n fs label False s3
                 | Some r \<Rightarrow> Some r))))"

definition read_label :: "nat \<Rightarrow> files \<Rightarrow> sile \<Rightarrow> string \<Rightarrow> ((error + raw option) \<times> sile) option"
  where
  "read_label n fs s label = scan n fs label True (seek s)"

section \<open>Typed lookup\<close>

text \<open>
  The unit tables of \<^verbatim>\<open>sisl.unit.siesta\<close> are not part of the sources at hand: the three
  functions that \<^verbatim>\<open>get\<close> imports from there are parameters of the model.
\<close>

record units =
  unit_group :: "string \<Rightarrow> error + string"
  unit_default :: "string \<Rightarrow> error + string"
  unit_convert :: "string \<Rightarrow> string \<Rightarrow> error + pyfloat"

definition to_pyval :: "raw \<Rightarrow> pyval" where
  "to_pyval v =
     (case v of Str x \<Rightarrow> PStr x | Block ls \<Rightarrow> PList (map PStr ls) | Array xs \<Rightarrow> PArray xs)"

text \<open>
  \<^verbatim>\<open>get\<close> after the call of \<^verbatim>\<open>_read_label\<close>: \<open>value\<close> is what the lookup returned,
  \<open>unit\<close>, \<open>dflt\<close> (the argument \<^verbatim>\<open>default\<close>) and \<open>with_unit\<close> are the arguments of \<^verbatim>\<open>get\<close>.
\<close>

definition get_value :: "units \<Rightarrow> raw option \<Rightarrow> string option \<Rightarrow> pyval \<Rightarrow> bool \<Rightarrow> error + pyval"
  where
  "get_value U value unit dflt with_unit =
     (case value of
        None \<Rightarrow> Inr dflt
      | Some (Block ls) \<Rightarrow> Inr (to_pyval (Block ls))
      | Some (Array xs) \<Rightarrow> Inr (to_pyval (Array xs))
      | Some (Str x) \<Rightarrow>
          (let t = fdf_type value in
           if t = Some CHR ''r'' then
             (if dflt = PNone
              then (case py_float x of None \<Rightarrow> Inl ValueError | Some v \<Rightarrow> Inr (PFloat v))
              else py_construct dflt x)
           else if t = Some CHR ''i'' then
             (if dflt = PNone
              then (case py_int x of None \<Rightarrow> Inl ValueError | Some i \<Rightarrow> Inr (PInt i))
              else py_construct dflt x)
           else if t = Some CHR ''p'' then
             (let vs = split x in
              if with_unit then
                (case py_float (vs ! 0) of
                   None \<Rightarrow> Inl ValueError
                 | Some v \<Rightarrow> Inr (PTuple [PFloat v, PStr (vs ! 1)]))
              else
                (case (case unit of
                         None \<Rightarrow>
                           (case unit_group U (vs ! 1) of
                              Inl e \<Rightarrow> Inl e
                            | Inr g \<Rightarrow> unit_default U g)
                       | Some u \<Rightarrow>
                           (case unit_group U (vs ! 1) of
                              Inl e \<Rightarrow> Inl e
                            | Inr g1 \<Rightarrow>
                                (case unit_group U u of
                                   Inl e \<Rightarrow> Inl e
                                 | Inr g2 \<Rightarrow> if g1 \<noteq> g2 then Inl ValueError else Inr u))) of
                   Inl e \<Rightarrow> Inl e
                 | Inr d \<Rightarrow>
                     (case py_float (vs ! 0) of
                        None \<Rightarrow> Inl ValueError
                      | Some v \<Rightarrow>
                          (case unit_convert U (vs ! 1) d of
                             Inl e \<Rightarrow> Inl e
                           | Inr c \<Rightarrow> Inr (PFloat (fmul v c))))))
           else if t = Some CHR ''b'' then Inr (PBool (lower x \<in> set LOGICAL_TRUE))
           else Inr (PStr x)))"

definition get ::
  "nat \<Rightarrow> units \<Rightarrow> files \<Rightarrow> sile \<Rightarrow> string \<Rightarrow> string option \<Rightarrow> pyval \<Rightarrow> bool
     \<Rightarrow> ((error + pyval) \<times> sile) option" where
  "get n U fs s label unit dflt with_unit =
     (case read_label n fs s label of
        None \<Rightarrow> None
      | Some (Inl e, s') \<Rightarrow> Some (Inl e, s')
      | Some (Inr value, s') \<Rightarrow> Some (get_value U value unit dflt with_unit, s'))"

section \<open>Geometries and sparse matrices\<close>

text \<open>
  Modelled from the spec: the classes \<^verbatim>\<open>Orbital\<close>, \<^verbatim>\<open>Atom\<close>, \<^verbatim>\<open>Atoms\<close>, \<^verbatim>\<open>SuperCell\<close>,
  \<^verbatim>\<open>Geometry\<close> and the sparse matrices of \<^verbatim>\<open>sisl\<close> are not part of the sources at hand.
  A geometry is a periodic cell (three lattice vectors and the repeat counts \<open>nsc\<close>) and
  an ordered list of sites, each with a position and an atom; an atom has an atomic
  number, a list of orbitals, a mass and a tag. A sparse matrix carries a geometry; its
  counts of atoms and orbitals are those of its geometry. Of the container \<^verbatim>\<open>Atoms\<close>
  the model keeps the atom of every site: \<^verbatim>\<open>iter(True)\<close> yields every distinct atom with
  the indices of its sites, and indexing or replacing beyond the last site raises
  \<^verbatim>\<open>IndexError\<close>.
\<close>

record orbital =
  orb_R :: pyfloat
  orb_tag :: string

record atom =
  Z :: int
  orbital :: "orbital list"
  mass :: pyfloat
  tag :: string

record supercell =
  cell :: "pyfloat list list"
  nsc :: "int list"

record geometry =
  xyz :: "pyfloat list list"
  atoms :: "atom list"
  sc :: supercell

record 'm spgeom =
  geom :: geometry
  matrix :: 'm

definition atom_no :: "atom \<Rightarrow> nat" where
  "atom_no a = length (orbital a)"

definition geometry_na :: "geometry \<Rightarrow> nat" where
  "geometry_na g = length (atoms g)"

definition geometry_no :: "geometry \<Rightarrow> nat" where
  "geometry_no g = sum_list (map atom_no (atoms g))"

definition atoms_iter :: "atom list \<Rightarrow> (atom \<times> nat list) list" where
  "atoms_iter as =
     map (\<lambda>a. (a, filter (\<lambda>i. as ! i = a) [0..<length as])) (remdups as)"

definition atoms_replace :: "atom list \<Rightarrow> nat list \<Rightarrow> atom \<Rightarrow> error + atom list" where
  "atoms_replace as idx a =
     (if list_all (\<lambda>i. i < length as) idx then Inr (foldl (\<lambda>xs i. xs[i := a]) as idx)
      else Inl IndexError)"

text \<open>
  \<^verbatim>\<open>_SpGeom_replace_geom\<close>. The result is the list of the warnings issued and either an
  exception or the returned truth value with the matrix as the call leaves it. The loop
  over the species of \<open>geom\<close> is \<open>replace_loop\<close>; it works on the atoms of the geometry of
  the matrix.
\<close>

fun replace_loop :: "(atom \<times> nat list) list \<Rightarrow> atom list \<Rightarrow> error + atom list" where
  "replace_loop [] sp = Inr sp"
| "replace_loop ((a, idx) # rest) sp =
     (if length idx = 0 then replace_loop rest sp
      else if \<not> idx ! 0 < length sp then Inl IndexError
      else
        (let Sa = sp ! (idx ! 0);
             a' = (if atom_no Sa \<noteq> atom_no a
                   then \<lparr>Z = Z a, orbital = orbital Sa, mass = mass a, tag = tag a\<rparr>
                   else a)
         in case atoms_replace sp idx a' of
              Inl e \<Rightarrow> Inl e
            | Inr sp' \<Rightarrow> replace_loop rest sp'))"

definition SpGeom_replace_geom ::
  "'m spgeom \<Rightarrow> geometry \<Rightarrow> string list \<times> (error + bool \<times> 'm spgeom)" where
  "SpGeom_replace_geom spgeom g =
     (if geometry_na (geom spgeom) \<noteq> geometry_na g \<and> geometry_no (geom spgeom) = geometry_no g
      then ([], Inr (True, spgeom\<lparr>geom := g\<rparr>))
      else
        (let warned = (if geometry_na (geom spgeom) \<noteq> geometry_na g
                       then [''cannot replace geometry''] else []);
             no_no = (geometry_no (geom spgeom) = geometry_no g)
         in (warned,
             case replace_loop (atoms_iter (atoms g)) (atoms (geom spgeom)) of
               Inl e \<Rightarrow> Inl e
             | Inr sp' \<Rightarrow> Inr (no_no, spgeom\<lparr>geom := (geom spgeom)\<lparr>atoms := sp'\<rparr>\<rparr>))))"

section \<open>The resolution pipeline\<close>

text \<open>
  Results of functions that look labels up are \<open>(error + 'a) option\<close>: \<open>None\<close> says that
  the fuel of a lookup did not suffice, \<open>Some (Inl e)\<close> is the exception \<open>e\<close>.
\<close>

definition then_do :: "('e + 'a) option \<Rightarrow> ('a \<Rightarrow> ('e + 'b) option) \<Rightarrow> ('e + 'b) option" where
  "then_do m k = (case m of None \<Rightarrow> None | Some (Inl e) \<Rightarrow> Some (Inl e) | Some (Inr x) \<Rightarrow> k x)"

definition sbind :: "'e + 'a \<Rightarrow> ('a \<Rightarrow> 'e + 'b) \<Rightarrow> 'e + 'b" where
  "sbind m k = (case m of Inl e \<Rightarrow> Inl e | Inr x \<Rightarrow> k x)"

definition found :: "'e + 'a \<Rightarrow> ('e + 'a option) option" where
  "found r = (case r of Inl e \<Rightarrow> Some (Inl e) | Inr x \<Rightarrow> Some (Inr (Some x)))"

text \<open>
  The files and readers around an fdf file. The companion files are binary: of them the
  model has whether they exist (\<open>isfile\<close>) and what their readers return, and so for
  \<^verbatim>\<open>read_supercell_nsc\<close> and \<^verbatim>\<open>read_basis\<close>, which read companion files only or
  mostly, and for the constructors \<^verbatim>\<open>SuperCell.tocell\<close>, \<^verbatim>\<open>np.empty\<close> and \<^verbatim>\<open>Atom(1)\<close>.
  \<open>xv_geometry\<close> and \<open>xv_supercell\<close> are the bodies of \<^verbatim>\<open>_r_geometry_xv\<close> and
  \<^verbatim>\<open>_r_supercell_xv\<close> once the file is known to exist.
\<close>

record world =
  unit_tbl :: units
  files :: files
  fdf_file :: string
  isfile :: "string \<Rightarrow> bool"
  supercell_nsc :: "error + int list"
  basis :: "error + atom list option"
  tocell :: "pyfloat list \<Rightarrow> error + pyfloat list list"
  empty_cell :: "pyfloat list list"
  hydrogen :: atom
  xv_supercell :: "string \<Rightarrow> error + supercell"
  nc_supercell :: "string \<Rightarrow> error + supercell"
  xv_geometry :: "string \<Rightarrow> error + geometry"
  nc_geometry :: "string \<Rightarrow> error + geometry"

text \<open>
  \<^verbatim>\<open>self.get(...)\<close> on a sile that is not open: the file is opened for the call, which
  raises \<^verbatim>\<open>IOError\<close> if it does not exist, and \<^verbatim>\<open>_read_label\<close> starts by \<^verbatim>\<open>_seek\<close>.
\<close>

definition self_get ::
  "nat \<Rightarrow> world \<Rightarrow> string \<Rightarrow> string option \<Rightarrow> pyval \<Rightarrow> bool \<Rightarrow> (error + pyval) option" where
  "self_get n w label unit dflt with_unit =
     (case files w (fdf_file w) of
        None \<Rightarrow> Some (Inl IOError)
      | Some _ \<Rightarrow>
          map_option fst
            (get n (unit_tbl w) (files w) (new_sile (fdf_file w)) label unit dflt with_unit))"

text \<open>\<^verbatim>\<open>self._tofile(self.get('SystemLabel', default='siesta')) + suffix\<close>\<close>

definition tofile_label :: "nat \<Rightarrow> world \<Rightarrow> string \<Rightarrow> (error + string) option" where
  "tofile_label n w suffix =
     then_do (self_get n w ''SystemLabel'' None (PStr ''siesta'') False)
       (\<lambda>v. case v of PStr lbl \<Rightarrow> Some (Inr (lbl @ suffix)) | _ \<Rightarrow> Some (Inl TypeError))"

text \<open>
  The loop of every \<^verbatim>\<open>read_X\<close>:
  \<^verbatim>\<open>for f in order: v = getattr(self, '_r_X_' + f.lower())(...); if v is not None: return v\<close>.
  \<open>readers\<close> maps the lower-case name of a source to the outcome of its reader, and is
  undefined where the sile has no such method. The result is the list of the readers
  called together with the outcome.
\<close>

fun resolve ::
  "(string \<Rightarrow> (error + 'a option) option option) \<Rightarrow> string list
     \<Rightarrow> string list \<times> (error + 'a option) option" where
  "resolve readers [] = ([], Some (Inr None))"
| "resolve readers (f # order) =
     (case readers (lower f) of
        None \<Rightarrow> ([], Some (Inl AttributeError))
      | Some v \<Rightarrow>
          if v = Some (Inr None)
          then (case resolve readers order of (called, r) \<Rightarrow> (lower f # called, r))
          else ([lower f], v))"

subsection \<open>Python values in the readers\<close>

definition truthy :: "pyval \<Rightarrow> bool" where
  "truthy v =
     (case v of
        PNone \<Rightarrow> False
      | PBool b \<Rightarrow> b
      | PInt i \<Rightarrow> i \<noteq> 0
      | PFloat x \<Rightarrow> x \<noteq> Fin 0
      | PStr s \<Rightarrow> s \<noteq> []
      | PList xs \<Rightarrow> xs \<noteq> []
      | PTuple xs \<Rightarrow> xs \<noteq> []
      | PArray xs \<Rightarrow> xs \<noteq> [])"

definition py_len :: "pyval \<Rightarrow> error + nat" where
  "py_len v =
     (case v of
        PStr s \<Rightarrow> Inr (length s)
      | PList xs \<Rightarrow> Inr (length xs)
      | PTuple xs \<Rightarrow> Inr (length xs)
      | PArray xs \<Rightarrow> Inr (length xs)
      | _ \<Rightarrow> Inl TypeError)"

text \<open>\<^verbatim>\<open>v[i].split()\<close>: the tokens of the \<open>i\<close>-th line of a block, or character of a string.\<close>

definition item_split :: "pyval \<Rightarrow> nat \<Rightarrow> error + string list" where
  "item_split v i =
     (case v of
        PStr s \<Rightarrow> if i < length s then Inr (split [s ! i]) else Inl IndexError
      | PList xs \<Rightarrow>
          if i < length xs
          then (case xs ! i of PStr l \<Rightarrow> Inr (split l) | _ \<Rightarrow> Inl AttributeError)
          else Inl IndexError
      | PTuple xs \<Rightarrow>
          if i < length xs
          then (case xs ! i of PStr l \<Rightarrow> Inr (split l) | _ \<Rightarrow> Inl AttributeError)
          else Inl IndexError
      | PArray xs \<Rightarrow> if i < length xs then Inl AttributeError else Inl IndexError
      | _ \<Rightarrow> Inl TypeError)"

text \<open>\<^verbatim>\<open>[float(k) for k in ks]\<close>\<close>

fun float_list :: "string list \<Rightarrow> error + pyfloat list" where
  "float_list [] = Inr []"
| "float_list (k # ks) =
     (case py_float k of
        None \<Rightarrow> Inl ValueError
      | Some x \<Rightarrow> (case float_list ks of Inl e \<Rightarrow> Inl e | Inr xs \<Rightarrow> Inr (x # xs)))"

text \<open>A number as a factor of an array: \<^verbatim>\<open>int\<close>, \<^verbatim>\<open>bool\<close> and \<^verbatim>\<open>float\<close>.\<close>

definition as_number :: "pyval \<Rightarrow> error + pyfloat" where
  "as_number v =
     (case v of
        PFloat x \<Rightarrow> Inr x
      | PInt i \<Rightarrow> Inr (Fin (real_of_int i))
      | PBool b \<Rightarrow> Inr (Fin (if b then 1 else 0))
      | _ \<Rightarrow> Inl TypeError)"

definition as_int :: "pyval \<Rightarrow> error + int" where
  "as_int v =
     (case v of PInt i \<Rightarrow> Inr i | PBool b \<Rightarrow> Inr (if b then 1 else 0) | _ \<Rightarrow> Inl TypeError)"

text \<open>
  Assigning or adding a vector to rows of three components: a vector of three fits, a
  vector of one is broadcast, any other length raises \<^verbatim>\<open>ValueError\<close>.
\<close>

definition broadcast3 :: "pyfloat list \<Rightarrow> error + pyfloat list" where
  "broadcast3 v =
     (if length v = 3 then Inr v
      else if length v = 1 then Inr [v ! 0, v ! 0, v ! 0]
      else Inl ValueError)"

definition vscale :: "pyfloat list \<Rightarrow> pyfloat \<Rightarrow> pyfloat list" where
  "vscale v s = map (\<lambda>x. fmul x s) v"

definition vadd :: "pyfloat list \<Rightarrow> pyfloat list \<Rightarrow> pyfloat list" where
  "vadd u v = map (\<lambda>(x, y). fadd x y) (zip u v)"

definition dot :: "pyfloat list \<Rightarrow> pyfloat list \<Rightarrow> pyfloat" where
  "dot u v = foldl fadd (Fin 0) (map (\<lambda>(x, y). fmul x y) (zip u v))"

text \<open>\<^verbatim>\<open>np.dot(row, m)\<close> for a row of three components and a matrix of three rows of three.\<close>

definition vecmat :: "pyfloat list \<Rightarrow> pyfloat list list \<Rightarrow> pyfloat list" where
  "vecmat row m = map (\<lambda>j. dot row (map (\<lambda>r. r ! j) m)) [0..<3]"

definition is_3x3 :: "pyfloat list list \<Rightarrow> bool" where
  "is_3x3 m = (length m = 3 \<and> list_all (\<lambda>r. length r = 3) m)"

subsection \<open>The cell\<close>

text \<open>\<^verbatim>\<open>cell[i, :] = [float(k) for k in lc[i].split()[:3]]\<close> for \<open>i = 0, 1, 2\<close>.\<close>

definition vector_row :: "pyval \<Rightarrow> nat \<Rightarrow> error + pyfloat list" where
  "vector_row lc i =
     sbind (item_split lc i) (\<lambda>ks. sbind (float_list (take 3 ks)) broadcast3)"

definition cell_of_vectors :: "pyval \<Rightarrow> error + pyfloat list list" where
  "cell_of_vectors lc =
     sbind (vector_row lc 0) (\<lambda>r0.
     sbind (vector_row lc 1) (\<lambda>r1.
     sbind (vector_row lc 2) (\<lambda>r2. Inr [r0, r1, r2])))"

definition r_supercell_fdf :: "nat \<Rightarrow> world \<Rightarrow> (error + supercell option) option" where
  "r_supercell_fdf n w =
     then_do (self_get n w ''LatticeConstant'' (Some ''Ang'') PNone False) (\<lambda>s.
     if s = PNone then Some (Inl SileError)
     else
       then_do (self_get n w ''LatticeVectors'' None PNone False) (\<lambda>lc.
       then_do
         (if truthy lc then Some (cell_of_vectors lc)
          else
            then_do (self_get n w ''LatticeParameters'' None PNone False) (\<lambda>lc.
            if truthy lc then
              Some (sbind (item_split lc 0) (\<lambda>ks. sbind (float_list (take 6 ks)) (tocell w)))
            else if lc = PNone then Some (Inl SileError)
            else Some (Inr (empty_cell w))))
         (\<lambda>c.
          Some (sbind (as_number s) (\<lambda>s.
                sbind (supercell_nsc w) (\<lambda>nsc.
                Inr (Some \<lparr>cell = map (\<lambda>r. vscale r s) c, nsc = nsc\<rparr>)))))))"

definition r_supercell_nc :: "nat \<Rightarrow> world \<Rightarrow> (error + supercell option) option" where
  "r_supercell_nc n w =
     then_do (tofile_label n w ''.nc'')
       (\<lambda>f. if isfile w f then found (nc_supercell w f) else Some (Inr None))"

definition r_supercell_xv :: "nat \<Rightarrow> world \<Rightarrow> (error + supercell option) option" where
  "r_supercell_xv n w =
     then_do (tofile_label n w ''.XV'')
       (\<lambda>f. if isfile w f then found (xv_supercell w f) else Some (Inr None))"

definition read_supercell ::
  "nat \<Rightarrow> world \<Rightarrow> bool \<Rightarrow> string list option
     \<Rightarrow> string list \<times> (error + supercell option) option" where
  "read_supercell n w output order =
     resolve [''fdf'' \<mapsto> r_supercell_fdf n w, ''nc'' \<mapsto> r_supercell_nc n w,
              ''xv'' \<mapsto> r_supercell_xv n w]
       (case order of
          Some ord \<Rightarrow> ord
        | None \<Rightarrow> if output then [''XV'', ''nc'', ''fdf''] else [''fdf''])"

subsection \<open>The geometry\<close>

text \<open>
  The scaling of the coordinates that \<^verbatim>\<open>AtomicCoordinatesFormat\<close> selects: the factor
  \<open>s\<close>, which stays unbound when no rule matches, and whether the coordinates are
  fractional. The factor of \<^verbatim>\<open>ScaledCartesian\<close> is looked up in the file.
\<close>

datatype scaling = Factor pyfloat | LatticeConstant | Fractional | Unbound

definition coordinates_format :: "units \<Rightarrow> string \<Rightarrow> error + scaling" where
  "coordinates_format U lc =
     (if substr_in ''ang'' lc \<or> substr_in ''notscaledcartesianang'' lc then Inr (Factor (Fin 1))
      else if substr_in ''bohr'' lc \<or> substr_in ''notscaledcartesianbohr'' lc
      then sbind (unit_convert U ''Bohr'' ''Ang'') (\<lambda>c. Inr (Factor c))
      else if substr_in ''scaledcartesian'' lc then Inr LatticeConstant
      else if substr_in ''fractional'' lc \<or> substr_in ''scaledbylatticevectors'' lc
      then Inr Fractional
      else Inr Unbound)"

text \<open>
  The rows of the block of atoms:
  \<^verbatim>\<open>xyz[ia, :] = [float(k) for k in l[:3]]; species[ia] = int(l[3]) - 1\<close>.
\<close>

definition atom_row :: "pyval \<Rightarrow> nat \<Rightarrow> error + pyfloat list \<times> int" where
  "atom_row atms ia =
     sbind (item_split atms ia) (\<lambda>l.
     sbind (float_list (take 3 l)) (\<lambda>v.
     sbind (broadcast3 v) (\<lambda>r.
     if length l \<le> 3 then Inl IndexError
     else (case py_int (l ! 3) of None \<Rightarrow> Inl ValueError | Some k \<Rightarrow> Inr (r, k - 1)))))"

fun atom_rows :: "pyval \<Rightarrow> nat list \<Rightarrow> error + (pyfloat list \<times> int) list" where
  "atom_rows atms [] = Inr []"
| "atom_rows atms (ia # ias) =
     sbind (atom_row atms ia) (\<lambda>r. sbind (atom_rows atms ias) (\<lambda>rs. Inr (r # rs)))"

text \<open>\<^verbatim>\<open>atom[i]\<close> for an index that may be negative.\<close>

definition py_nth :: "'a list \<Rightarrow> int \<Rightarrow> error + 'a" where
  "py_nth xs i =
     (let j = (if i < 0 then int (length xs) + i else i) in
      if 0 \<le> j \<and> j < int (length xs) then Inr (xs ! nat j) else Inl IndexError)"

fun species_atoms :: "atom list \<Rightarrow> int list \<Rightarrow> error + atom list" where
  "species_atoms atom [] = Inr []"
| "species_atoms atom (i # is) =
     sbind (py_nth atom i) (\<lambda>a. sbind (species_atoms atom is) (\<lambda>as. Inr (a # as)))"

text \<open>
  \<^verbatim>\<open>_r_geometry_fdf\<close>; \<open>origin\<close> is the keyword argument of that name, \<open>None\<close> when it is
  not given. The rows are read from the first \<open>na\<close> lines of the block
  (\<^verbatim>\<open>atms = atms[:na]\<close> when \<open>na\<close> is less than the number of lines); a negative \<open>na\<close>
  fails in \<^verbatim>\<open>np.empty\<close>, and a value of \<^verbatim>\<open>NumberOfAtoms\<close> that is not an integer
  raises \<^verbatim>\<open>TypeError\<close> in the model. The cell of \<^verbatim>\<open>read_supercell(order=['fdf'])\<close> is
  never \<open>None\<close>. The warning about a missing basis is not modelled.
\<close>

definition r_geometry_fdf :: "nat \<Rightarrow> world \<Rightarrow> bool option \<Rightarrow> (error + geometry option) option"
  where
  "r_geometry_fdf n w origin =
     then_do (snd (read_supercell n w False (Some [''fdf'']))) (\<lambda>sc.
     then_do (self_get n w ''AtomicCoordinatesFormat'' None (PStr ''Bohr'') False) (\<lambda>lc.
     then_do (case lc of PStr x \<Rightarrow> Some (coordinates_format (unit_tbl w) (lower x))
                       | _ \<Rightarrow> Some (Inl AttributeError)) (\<lambda>fmt.
     then_do (case fmt of
                Factor c \<Rightarrow> Some (Inr (Some (PFloat c)))
              | LatticeConstant \<Rightarrow>
                  then_do (self_get n w ''LatticeConstant'' (Some ''Ang'') PNone False)
                    (\<lambda>v. Some (Inr (Some v)))
              | Fractional \<Rightarrow> Some (Inr (Some (PFloat (Fin 1))))
              | Unbound \<Rightarrow> Some (Inr None)) (\<lambda>s.
     then_do (self_get n w ''AtomicCoordinatesOrigin'' None PNone False) (\<lambda>lor.
     then_do
       (if truthy lor \<and> origin \<noteq> Some False then
          Some (sbind (item_split lor 0) (\<lambda>ks.
                sbind (float_list (take 3 ks)) (\<lambda>v.
                case s of
                  None \<Rightarrow> Inl UnboundLocalError
                | Some s \<Rightarrow> sbind (as_number s) (\<lambda>s. Inr (vscale v s)))))
        else Some (Inr [Fin 0, Fin 0, Fin 0])) (\<lambda>origo.
     then_do (self_get n w ''AtomicCoordinatesAndAtomicSpecies'' None PNone False) (\<lambda>atms.
     if atms = PNone then Some (Inl SileError)
     else
       then_do (Some (py_len atms)) (\<lambda>len.
       then_do (self_get n w ''NumberOfAtoms'' None (PInt (int len)) False) (\<lambda>na.
       Some
        (sbind (as_int na) (\<lambda>na.
         if \<not> na < int len \<and> na > int len then Inl SileError
         else if \<not> na < int len \<and> na = 0 then Inl SileError
         else if na < 0 then Inl ValueError
         else
           sbind (atom_rows atms [0..<nat na]) (\<lambda>rows.
           sbind (if fmt = Fractional
                  then (case sc of
                          None \<Rightarrow> Inl AttributeError
                        | Some c \<Rightarrow>
                            if is_3x3 (cell c)
                            then Inr (map (\<lambda>(r, k). vecmat r (cell c)) rows)
                            else Inl ValueError)
                  else Inr (map fst rows)) (\<lambda>xyz0.
           sbind (case s of None \<Rightarrow> Inl UnboundLocalError | Some s \<Rightarrow> as_number s) (\<lambda>s.
           sbind (broadcast3 origo) (\<lambda>origo.
           sbind (basis w) (\<lambda>atom.
           sbind (case atom of
                    None \<Rightarrow> Inr (replicate (nat na) (hydrogen w))
                  | Some atom \<Rightarrow> species_atoms atom (map snd rows)) (\<lambda>as.
           case sc of
             None \<Rightarrow> Inl AttributeError
           | Some c \<Rightarrow>
               Inr (Some \<lparr>xyz = map (\<lambda>r. vadd (vscale r s) origo) xyz0, atoms = as,
                           sc = c\<rparr>))))))))))))))))))"

definition r_geometry_nc :: "nat \<Rightarrow> world \<Rightarrow> bool option \<Rightarrow> (error + geometry option) option"
  where
  "r_geometry_nc n w origin =
     (if origin \<noteq> None then Some (Inl TypeError)
      else then_do (tofile_label n w ''.nc'')
             (\<lambda>f. if isfile w f then found (nc_geometry w f) else Some (Inr None)))"

definition r_geometry_xv :: "nat \<Rightarrow> world \<Rightarrow> bool option \<Rightarrow> (error + geometry option) option"
  where
  "r_geometry_xv n w origin =
     then_do (tofile_label n w ''.XV'')
       (\<lambda>f. if isfile w f then found (xv_geometry w f) else Some (Inr None))"

definition read_geometry ::
  "nat \<Rightarrow> world \<Rightarrow> bool \<Rightarrow> string list option \<Rightarrow> bool option
     \<Rightarrow> string list \<times> (error + geometry option) option" where
  "read_geometry n w output order origin =
     resolve [''xv'' \<mapsto> r_geometry_xv n w origin, ''nc'' \<mapsto> r_geometry_nc n w origin,
              ''fdf'' \<mapsto> r_geometry_fdf n w origin]
       (case order of
          Some ord \<Rightarrow> ord
        | None \<Rightarrow> if output then [''XV'', ''nc'', ''fdf''] else [''fdf''])"

subsection \<open>The Hamiltonian\<close>

text \<open>The readers of the companion files that hold a Hamiltonian.\<close>

record 'm matrix_files =
  nc_hamiltonian :: "string \<Rightarrow> error + 'm spgeom"
  tshs_hamiltonian :: "string \<Rightarrow> error + 'm spgeom"
  hsx_hamiltonian :: "string \<Rightarrow> error + 'm spgeom"

text \<open>
  \<^verbatim>\<open>self._SpGeom_replace_geom(H, self.read_geometry(True))\<close> and \<^verbatim>\<open>return H\<close>: the
  warnings are dropped, the matrix is returned as the call leaves it.
\<close>

definition replaced ::
  "nat \<Rightarrow> world \<Rightarrow> 'm spgeom \<Rightarrow> (error + 'm spgeom option) option" where
  "replaced n w H =
     then_do (snd (read_geometry n w True None None))
       (\<lambda>g. case g of
               None \<Rightarrow> Some (Inl AttributeError)
             | Some g \<Rightarrow>
                 (case snd (SpGeom_replace_geom H g) of
                    Inl e \<Rightarrow> Some (Inl e)
                  | Inr (ok, H') \<Rightarrow> Some (Inr (Some H'))))"

definition r_hamiltonian_nc ::
  "nat \<Rightarrow> world \<Rightarrow> 'm matrix_files \<Rightarrow> (error + 'm spgeom option) option" where
  "r_hamiltonian_nc n w M =
     then_do (tofile_label n w ''.nc'')
       (\<lambda>f. if isfile w f then found (nc_hamiltonian M f) else Some (Inr None))"

definition r_hamiltonian_tshs ::
  "nat \<Rightarrow> world \<Rightarrow> 'm matrix_files \<Rightarrow> (error + 'm spgeom option) option" where
  "r_hamiltonian_tshs n w M =
     then_do (tofile_label n w ''.TSHS'')
       (\<lambda>f. if isfile w f
             then (case tshs_hamiltonian M f of
                     Inl e \<Rightarrow> Some (Inl e)
                   | Inr H \<Rightarrow> replaced n w H)
             else Some (Inr None))"

definition r_hamiltonian_hsx ::
  "nat \<Rightarrow> world \<Rightarrow> 'm matrix_files \<Rightarrow> (error + 'm spgeom option) option" where
  "r_hamiltonian_hsx n w M =
     then_do (tofile_label n w ''.HSX'')
       (\<lambda>f. if isfile w f
             then (case hsx_hamiltonian M f of
                     Inl e \<Rightarrow> Some (Inl e)
                   | Inr H \<Rightarrow> replaced n w H)
             else Some (Inr None))"

definition read_hamiltonian ::
  "nat \<Rightarrow> world \<Rightarrow> 'm matrix_files \<Rightarrow> string list option
     \<Rightarrow> string list \<times> (error + 'm spgeom option) option" where
  "read_hamiltonian n w M order =
     resolve [''nc'' \<mapsto> r_hamiltonian_nc n w M, ''tshs'' \<mapsto> r_hamiltonian_tshs n w M,
              ''hsx'' \<mapsto> r_hamiltonian_hsx n w M]
       (case order of Some ord \<Rightarrow> ord | None \<Rightarrow> [''nc'', ''TSHS'', ''HSX''])"

subsection \<open>Force constants and the Hessian\<close>

text \<open>
  The keyword arguments of \<^verbatim>\<open>read_force_constant\<close> and \<^verbatim>\<open>read_hessian\<close>, \<open>None\<close> for an
  argument that is not given. \<open>kw_supercell\<close> is the argument as the integer array
  \<^verbatim>\<open>_a.arrayi(kwargs.get('supercell', (1, 1, 1)))\<close> holds it.
\<close>

record hessian_kw =
  kw_correct_fc :: "bool option"
  kw_cutoff_fc :: "pyfloat option"
  kw_cutoff_dist :: "pyfloat option"
  kw_supercell :: "int list option"

text \<open>
  The reader of the \<^verbatim>\<open>.FC\<close> file and the steps of \<^verbatim>\<open>numpy\<close> and of the classes of \<^verbatim>\<open>sisl\<close>
  on the array of force constants \<open>'fc\<close> and the Hessian \<open>'h\<close>; each of them may raise.

  \<^item> \<open>fc_file f na\<close>: \<^verbatim>\<open>fcSileSiesta(f).read_force_constant(na=na)\<close>;
  \<^item> \<open>shape0 fc\<close>: \<^verbatim>\<open>fc.shape[0]\<close>;
  \<^item> \<open>correct fc first last\<close>: the loop \<^verbatim>\<open>for i in range(fc_first - 1, fc_last)\<close>;
  \<^item> \<open>average fc\<close>: \<^verbatim>\<open>np.average(fc, axis=2)\<close>;
  \<^item> \<open>cut FC fc_cut\<close>: \<^verbatim>\<open>np.where(np.abs(FC) <= fc_cut, 0, FC)\<close>;
  \<^item> \<open>three_orbitals geom R\<close>: the loop that gives every atom the orbitals \<^verbatim>\<open>xyz\<close>;
  \<^item> \<open>without_ghosts geom FC\<close>: the removal of the atoms of mass zero and
    \<^verbatim>\<open>geom.set_nsc([1] * 3)\<close>;
  \<^item> \<open>arange first last\<close>: \<^verbatim>\<open>_a.arangei(first - 1, last)\<close>;
  \<^item> \<open>new_hessian geom\<close>: \<^verbatim>\<open>Hessian(geom)\<close>;
  \<^item> \<open>populate H FC geom fc_atoms R\<close>: the loop over \<^verbatim>\<open>fc_atoms\<close> that fills \<open>H\<close>;
  \<^item> \<open>small_geometry geom fc_atoms supercell\<close>: \<^verbatim>\<open>sc\<close>, \<^verbatim>\<open>geom_small\<close> and \<^verbatim>\<open>isc_xyz\<close>;
  \<^item> \<open>tiled_close geom_small geom isc_xyz fc_atoms supercell\<close>: the loop for
    \<^verbatim>\<open>axis_tiling\<close>, the tiling of \<^verbatim>\<open>geom_small\<close> and
    \<^verbatim>\<open>np.allclose(geom_tile.xyz, geom.xyz, rtol=0, atol=0.01)\<close>.
\<close>

record ('fc, 'h) numerics =
  fc_file :: "string \<Rightarrow> pyval \<Rightarrow> error + 'fc"
  shape0 :: "'fc \<Rightarrow> nat"
  correct :: "'fc \<Rightarrow> pyval \<Rightarrow> pyval \<Rightarrow> error + 'fc"
  average :: "'fc \<Rightarrow> error + 'fc"
  cut :: "'fc \<Rightarrow> pyfloat \<Rightarrow> error + 'fc"
  three_orbitals :: "geometry \<Rightarrow> pyfloat \<Rightarrow> error + geometry"
  without_ghosts :: "geometry \<Rightarrow> 'fc \<Rightarrow> error + geometry \<times> 'fc"
  arange :: "pyval \<Rightarrow> pyval \<Rightarrow> error + int list"
  new_hessian :: "geometry \<Rightarrow> error + 'h"
  populate :: "'h \<Rightarrow> 'fc \<Rightarrow> geometry \<Rightarrow> int list \<Rightarrow> pyfloat \<Rightarrow> error + 'h"
  small_geometry :: "geometry \<Rightarrow> int list \<Rightarrow> int list \<Rightarrow> error + geometry \<times> pyfloat list list"
  tiled_close ::
    "geometry \<Rightarrow> geometry \<Rightarrow> pyfloat list list \<Rightarrow> int list \<Rightarrow> int list \<Rightarrow> error + bool"

text \<open>\<^verbatim>\<open>0 in vs\<close>: the comparison \<^verbatim>\<open>0 == v\<close> for the elements in turn.\<close>

definition is_zero :: "pyval \<Rightarrow> error + bool" where
  "is_zero v =
     (case v of
        PInt i \<Rightarrow> Inr (i = 0)
      | PBool b \<Rightarrow> Inr (\<not> b)
      | PFloat x \<Rightarrow> Inr (x = Fin 0)
      | PArray xs \<Rightarrow>
          if length xs = 1 then Inr (xs ! 0 = Fin 0)
          else if xs = [] then Inr False
          else Inl ValueError
      | _ \<Rightarrow> Inr False)"

fun zero_in :: "pyval list \<Rightarrow> error + bool" where
  "zero_in [] = Inr False"
| "zero_in (v # vs) = sbind (is_zero v) (\<lambda>z. if z then Inr True else zero_in vs)"

text \<open>\<^verbatim>\<open>fc_last - fc_first + 1\<close>\<close>

definition displaced :: "pyval \<Rightarrow> pyval \<Rightarrow> error + pyfloat" where
  "displaced fc_last fc_first =
     sbind (as_number fc_last) (\<lambda>l.
     sbind (as_number fc_first) (\<lambda>f.
     Inr (fadd (fadd l (fmul f (Fin (- 1)))) (Fin 1))))"

definition r_force_constant_fc ::
  "nat \<Rightarrow> world \<Rightarrow> ('fc, 'h) numerics \<Rightarrow> hessian_kw \<Rightarrow> (error + 'fc option) option" where
  "r_force_constant_fc n w X kw =
     then_do (tofile_label n w ''.FC'') (\<lambda>f.
     if isfile w f then
       then_do (self_get n w ''NumberOfAtoms'' None PNone False) (\<lambda>na.
       then_do (Some (fc_file X f na)) (\<lambda>fc.
       then_do (self_get n w ''MD.FCFirst'' None (PInt 0) False) (\<lambda>fc_first.
       then_do (self_get n w ''MD.FCLast'' None (PInt 0) False) (\<lambda>fc_last.
       then_do (Some (zero_in [fc_first, fc_last])) (\<lambda>z.
       if z then Some (Inl SislError)
       else
         then_do (Some (displaced fc_last fc_first)) (\<lambda>d.
         if d \<noteq> Fin (real (shape0 X fc)) then Some (Inl SislError)
         else if kw_correct_fc kw \<noteq> Some False then
           then_do (Some (correct X fc fc_first fc_last)) (\<lambda>fc. Some (Inr (Some fc)))
         else Some (Inr (Some fc))))))))
     else Some (Inr None))"

definition read_force_constant ::
  "nat \<Rightarrow> world \<Rightarrow> ('fc, 'h) numerics \<Rightarrow> hessian_kw \<Rightarrow> string list option
     \<Rightarrow> string list \<times> (error + 'fc option) option" where
  "read_force_constant n w X kw order =
     resolve [''fc'' \<mapsto> r_force_constant_fc n w X kw]
       (case order of Some ord \<Rightarrow> ord | None \<Rightarrow> [''FC''])"

text \<open>\<^verbatim>\<open>np.any(np.diff(fc_atoms) != 1)\<close>\<close>

fun not_consecutive :: "int list \<Rightarrow> bool" where
  "not_consecutive (a # b # rest) = (b - a \<noteq> 1 \<or> not_consecutive (b # rest))"
| "not_consecutive _ = False"

text \<open>
  \<^verbatim>\<open>_r_hessian_fc\<close>. The warning about \<^verbatim>\<open>AtomicMass\<close> is dropped. The branch for a supercell
  that is not all ones is \<open>supercell_hessian\<close>.
\<close>

definition supercell_hessian ::
  "('fc, 'h) numerics \<Rightarrow> geometry \<Rightarrow> int list \<Rightarrow> int list \<Rightarrow> error + 'h" where
  "supercell_hessian X gm fc_atoms supercell =
     sbind (small_geometry X gm fc_atoms supercell) (\<lambda>(geom_small, isc_xyz).
     if not_consecutive fc_atoms then Inl SislError
     else
       sbind (tiled_close X geom_small gm isc_xyz fc_atoms supercell) (\<lambda>close.
       if \<not> close then Inl SislError
       else Inl NotImplementedError))"

definition r_hessian_fc ::
  "nat \<Rightarrow> world \<Rightarrow> ('fc, 'h) numerics \<Rightarrow> hessian_kw \<Rightarrow> (error + 'h option) option" where
  "r_hessian_fc n w X kw =
     then_do (r_force_constant_fc n w X kw) (\<lambda>fc.
     (case fc of
        None \<Rightarrow> Some (Inr None)
      | Some fc \<Rightarrow>
          then_do (Some (average X fc)) (\<lambda>FC.
          then_do (snd (read_geometry n w False None None)) (\<lambda>gm.
          (case gm of
             None \<Rightarrow> Some (Inl AttributeError)
           | Some gm \<Rightarrow>
               then_do (Some (cut X FC (case kw_cutoff_fc kw of Some c \<Rightarrow> c | None \<Rightarrow> Fin 0)))
                 (\<lambda>FC.
               let R = (case kw_cutoff_dist kw of Some r \<Rightarrow> r | None \<Rightarrow> Fin (- 1)) in
               then_do (Some (three_orbitals X gm R)) (\<lambda>gm.
               then_do (Some (without_ghosts X gm FC)) (\<lambda>(gm, FC).
               then_do (self_get n w ''AtomicMass'' None (PList []) False) (\<lambda>am.
               then_do (Some (py_len am)) (\<lambda>_.
               then_do (self_get n w ''MD.FCFirst'' None (PInt 0) False) (\<lambda>first.
               then_do (Some (as_number first)) (\<lambda>_.
               then_do (self_get n w ''MD.FCLast'' None (PInt 0) False) (\<lambda>last.
               then_do (Some (arange X first last)) (\<lambda>fc_atoms.
               then_do (Some (new_hessian X gm)) (\<lambda>H.
               let supercell = (case kw_supercell kw of Some s \<Rightarrow> s | None \<Rightarrow> [1, 1, 1]) in
               if list_all (\<lambda>k. k = 1) supercell then
                 then_do (Some (populate X H FC gm fc_atoms R)) (\<lambda>H. Some (Inr (Some H)))
               else
                 then_do (Some (supercell_hessian X gm fc_atoms supercell))
                   (\<lambda>H. Some (Inr (Some H))))))))))))))))))"

definition read_hessian ::
  "nat \<Rightarrow> world \<Rightarrow> ('fc, 'h) numerics \<Rightarrow> hessian_kw \<Rightarrow> string list option
     \<Rightarrow> string list \<times> (error + 'h option) option" where
  "read_hessian n w X kw order =
     resolve [''fc'' \<mapsto> r_hessian_fc n w X kw]
       (case order of Some ord \<Rightarrow> ord | None \<Rightarrow> [''FC''])"

section \<open>Auxiliary definitions for the statements\<close>

text \<open>
  An instance of the unit tables, with the factors of \<^verbatim>\<open>sisl.unit.siesta\<close> for the units
  that the examples use.
\<close>

definition siesta_units :: units where
  "siesta_units =
     \<lparr>unit_group = (\<lambda>u. if u = ''eV'' \<or> u = ''Ry'' then Inr ''energy''
                          else if u = ''Ang'' \<or> u = ''Bohr'' then Inr ''length''
                          else Inl ValueError),
      unit_default = (\<lambda>g. if g = ''energy'' then Inr ''eV''
                            else if g = ''length'' then Inr ''Ang'' else Inl ValueError),
      unit_convert = (\<lambda>a b. if a = b then Inr (Fin 1)
                              else if a = ''Ry'' \<and> b = ''eV'' then Inr (Fin 13.60580)
                              else if a = ''Bohr'' \<and> b = ''Ang'' then Inr (Fin 0.529177)
                              else Inl ValueError)\<rparr>"

text \<open>
  Two labels that differ only by the case of letters and by inserted or removed
  characters \<^verbatim>\<open>_\<close>, \<^verbatim>\<open>-\<close> and \<^verbatim>\<open>.\<close>.
\<close>

inductive label_variant :: "string \<Rightarrow> string \<Rightarrow> bool" where
  same: "label_variant [] []"
| letter: "lower_char c = lower_char d \<Longrightarrow> label_variant a b \<Longrightarrow> label_variant (c # a) (d # b)"
| left: "c = CHR ''_'' \<or> c = CHR ''-'' \<or> c = CHR ''.'' \<Longrightarrow> label_variant a b
           \<Longrightarrow> label_variant (c # a) b"
| right: "c = CHR ''_'' \<or> c = CHR ''-'' \<or> c = CHR ''.'' \<Longrightarrow> label_variant a b
           \<Longrightarrow> label_variant a (c # b)"


text \<open>
  The condition that ends the scan of a block body, on a line of the file, and the lines
  on which \<^verbatim>\<open>process_line\<close> starts that scan for the normalised label \<open>labell\<close>.
\<close>

definition is_endblock :: "string \<Rightarrow> bool" where
  "is_endblock line = startswith (tolabel (strip line)) ''%endblock''"


text \<open>
  A directory that holds the fdf file \<^verbatim>\<open>RUN.fdf\<close> with the given lines and no companion
  file, with the hydrogen atom that \<^verbatim>\<open>Atom(1)\<close> builds.
\<close>

definition atom_H :: atom where
  "atom_H = \<lparr>Z = 1, orbital = [\<lparr>orb_R = Fin (-1), orb_tag = ''''\<rparr>], mass = Fin 1.00794,
              tag = ''H''\<rparr>"

definition fdf_world :: "string list \<Rightarrow> world" where
  "fdf_world ls =
     \<lparr>unit_tbl = siesta_units, files = [''RUN.fdf'' \<mapsto> ls], fdf_file = ''RUN.fdf'',
      isfile = (\<lambda>f. False), supercell_nsc = Inr [1, 1, 1], basis = Inr None,
      tocell = (\<lambda>ps. Inl TypeError), empty_cell = [], hydrogen = atom_H,
      xv_supercell = (\<lambda>f. Inl IOError), nc_supercell = (\<lambda>f. Inl IOError),
      xv_geometry = (\<lambda>f. Inl IOError), nc_geometry = (\<lambda>f. Inl IOError)\<rparr>"

text \<open>
  A document with one atom at fractional coordinates in an orthogonal cell, and an origin.
\<close>

definition fractional_doc :: "string list" where
  "fractional_doc =
     [''LatticeConstant 1.0 Ang'',
      ''%block LatticeVectors'',
      '' 2.0 0.0 0.0'',
      '' 0.0 3.0 0.0'',
      '' 0.0 0.0 4.0'',
      ''%endblock LatticeVectors'',
      ''AtomicCoordinatesFormat Fractional'',
      ''%block AtomicCoordinatesAndAtomicSpecies'',
      '' 0.5 0.5 0.25 1'',
      ''%endblock AtomicCoordinatesAndAtomicSpecies'',
      ''%block AtomicCoordinatesOrigin'',
      '' 1.0 1.0 1.0'',
      ''%endblock AtomicCoordinatesOrigin'']"

definition example_cell :: supercell where
  "example_cell =
     \<lparr>cell = [[Fin 2, Fin 0, Fin 0], [Fin 0, Fin 3, Fin 0], [Fin 0, Fin 0, Fin 4]],
      nsc = [1, 1, 1]\<rparr>"

text \<open>
  Geometries of one and of two sites, of hydrogen atoms (one orbital) and of carbon atoms
  (four orbitals).
\<close>

definition atom_C :: atom where
  "atom_C = \<lparr>Z = 6, orbital = replicate 4 \<lparr>orb_R = Fin (-1), orb_tag = ''''\<rparr>,
              mass = Fin 12.0107, tag = ''C''\<rparr>"

definition sites :: "atom list \<Rightarrow> geometry" where
  "sites as = \<lparr>xyz = map (\<lambda>i. [Fin (real i), Fin 0, Fin 0]) [0..<length as], atoms = as,
               sc = example_cell\<rparr>"

text \<open>Readers of the companion files of a directory that has none.\<close>

definition no_matrix_files :: "unit matrix_files" where
  "no_matrix_files =
     \<lparr>nc_hamiltonian = (\<lambda>f. Inl IOError), tshs_hamiltonian = (\<lambda>f. Inl IOError),
      hsx_hamiltonian = (\<lambda>f. Inl IOError)\<rparr>"

text \<open>
  Numerical steps on arrays without content, a call with the supercell \<open>(2, 1, 1)\<close>, and
  a directory that holds the file \<^verbatim>\<open>siesta.FC\<close> beside an fdf file with one displaced
  atom.
\<close>

definition unit_numerics :: "(unit, unit) numerics" where
  "unit_numerics =
     \<lparr>fc_file = (\<lambda>f na. Inr ()), shape0 = (\<lambda>fc. 1), correct = (\<lambda>fc a b. Inr fc),
      average = (\<lambda>fc. Inr fc), cut = (\<lambda>fc c. Inr fc), three_orbitals = (\<lambda>g R. Inr g),
      without_ghosts = (\<lambda>g fc. Inr (g, fc)),
      arange = (\<lambda>a b. sbind (as_int a) (\<lambda>i. sbind (as_int b) (\<lambda>j. Inr [i - 1 .. j - 1]))),
      new_hessian = (\<lambda>g. Inr ()), populate = (\<lambda>H fc g a R. Inr H),
      small_geometry = (\<lambda>g a s. Inr (g, xyz g)), tiled_close = (\<lambda>gs g isc a s. Inr True)\<rparr>"

definition tiled_kw :: hessian_kw where
  "tiled_kw = \<lparr>kw_correct_fc = None, kw_cutoff_fc = None, kw_cutoff_dist = None,
               kw_supercell = Some [2, 1, 1]\<rparr>"

definition fc_world :: world where
  "fc_world = (fdf_world (fractional_doc @ [''MD.FCFirst 1'', ''MD.FCLast 1'']))
                \<lparr>isfile := (\<lambda>f. f = ''siesta.FC'')\<rparr>"

section \<open>Results of lookups in sequence\<close>

lemma then_do_Some [simp]:
  "then_do (Some (Inr x)) k = k x" "then_do (Some (Inl e)) k = Some (Inl e)" "then_do None k = None"
  by (simp_all add: then_do_def)

lemma sbind_simps [simp]: "sbind (Inr x) k = k x" "sbind (Inl e) k = Inl e"
  by (simp_all add: sbind_def)

lemma sbind_eq_Inr: "(sbind m k = Inr y) = (\<exists>x. m = Inr x \<and> k x = Inr y)"
  by (cases m) simp_all

lemma then_do_eq_Inr: "(then_do m k = Some (Inr y)) = (\<exists>x. m = Some (Inr x) \<and> k x = Some (Inr y))"
  by (auto simp: then_do_def split: option.splits sum.splits)

section \<open>Properties\<close>

declare scan.simps(2) [simp del]

declare seek_loop.simps [simp del]

lemmas string_eval = is_space_def is_upper_def lower_char_def lower_def strip_def split_def
  startswith_def is_digit_def digit_val_def digitpart_def digits_val_def split_sign_def
  py_int_def mantissa_def is_e_def floatnumber_def py_float_def
  LOGICAL_def LOGICAL_TRUE_def LOGICAL_FALSE_def

subsection \<open>Lower case and the number grammar\<close>

text \<open>
  \<^verbatim>\<open>_type\<close> parses the lower-cased token. Lower-casing changes neither whether a string
  is a number nor its value.
\<close>

lemma lower_Nil [simp]: "(lower s = []) = (s = [])" "lower [] = []"
  by (simp_all add: lower_def)

lemma lower_Cons [simp]: "lower (c # s) = lower_char c # lower s"
  by (simp add: lower_def)

lemma case_lower:
  "(case lower r of [] \<Rightarrow> a | x # fp \<Rightarrow> f x fp) =
   (case r of [] \<Rightarrow> a | x # fp \<Rightarrow> f (lower_char x) (lower fp))"
  by (cases r) simp_all

lemma is_space_lower [simp]: "is_space (lower_char c) = is_space c"
  by (cases c) (simp add: lower_char_def is_upper_def is_space_def)

lemma is_digit_lower [simp]: "is_digit (lower_char c) = is_digit c"
  by (cases c) (simp add: lower_char_def is_upper_def is_digit_def)

lemma is_e_lower [simp]: "is_e (lower_char c) = is_e c"
  by (cases c) (auto simp add: lower_char_def is_upper_def is_e_def)

lemma lower_char_dot [simp]: "(lower_char c = CHR ''.'') = (c = CHR ''.'')"
  by (cases c) (auto simp add: lower_char_def is_upper_def)

lemma lower_char_us [simp]: "(lower_char c = CHR ''_'') = (c = CHR ''_'')"
  by (cases c) (auto simp add: lower_char_def is_upper_def)

lemma lower_char_plus [simp]: "(lower_char c = CHR ''+'') = (c = CHR ''+'')"
  by (cases c) (auto simp add: lower_char_def is_upper_def)

lemma lower_char_minus [simp]: "(lower_char c = CHR ''-'') = (c = CHR ''-'')"
  by (cases c) (auto simp add: lower_char_def is_upper_def)

lemma lower_char_idem [simp]: "lower_char (lower_char c) = lower_char c"
  by (cases c) (auto simp add: lower_char_def is_upper_def)

lemma lower_idem [simp]: "lower (lower s) = lower s"
  by (simp add: lower_def)




lemma lower_set_dot [simp]: "(CHR ''.'' \<in> set (lower s)) = (CHR ''.'' \<in> set s)"
  by (induction s) (auto simp: eq_commute [of "CHR ''.''"])

lemma digitpart_tl_lower [simp]: "digitpart_tl (lower s) = digitpart_tl s"
  by (induction s rule: digitpart_tl.induct) simp_all

lemma digitpart_lower [simp]: "digitpart (lower s) = digitpart s"
  by (cases s) (simp_all add: digitpart_def)

lemma filter_digit_lower [simp]: "filter is_digit (lower s) = filter is_digit s"
proof (induction s)
  case (Cons c s)
  then show ?case by (cases c) (simp add: lower_char_def is_upper_def is_digit_def)
qed simp

lemma digits_val_lower [simp]: "digits_val (lower s) = digits_val s"
  by (simp add: digits_val_def)

lemma split_sign_lower:
  "split_sign (lower s) = (fst (split_sign s), lower (snd (split_sign s)))"
  by (cases s) (simp_all add: split_sign_def)

lemma takeWhile_dot_lower:
  "takeWhile (\<lambda>c. c \<noteq> CHR ''.'') (lower s) = lower (takeWhile (\<lambda>c. c \<noteq> CHR ''.'') s)"
  by (induction s) simp_all

lemma dropWhile_dot_lower:
  "dropWhile (\<lambda>c. c \<noteq> CHR ''.'') (lower s) = lower (dropWhile (\<lambda>c. c \<noteq> CHR ''.'') s)"
  by (induction s) simp_all

lemma takeWhile_e_lower:
  "takeWhile (\<lambda>c. \<not> is_e c) (lower s) = lower (takeWhile (\<lambda>c. \<not> is_e c) s)"
  by (induction s) simp_all

lemma dropWhile_e_lower:
  "dropWhile (\<lambda>c. \<not> is_e c) (lower s) = lower (dropWhile (\<lambda>c. \<not> is_e c) s)"
  by (induction s) simp_all

lemma digitpart_Nil [simp]: "\<not> digitpart []"
  by (simp add: digitpart_def)

lemma mantissa_lower [simp]: "mantissa (lower m) = mantissa m"
proof -
  define ip where "ip = takeWhile (\<lambda>c. c \<noteq> CHR ''.'') m"
  define r where "r = dropWhile (\<lambda>c. c \<noteq> CHR ''.'') m"
  have "mantissa (lower m) =
     (case lower r of
        [] \<Rightarrow> if digitpart (lower ip) then Some (real (digits_val (lower ip))) else None
      | _ # fp \<Rightarrow>
          if (lower ip = [] \<or> digitpart (lower ip)) \<and> (fp = [] \<or> digitpart fp)
             \<and> \<not> (lower ip = [] \<and> fp = [])
          then Some (real (digits_val (lower ip))
                     + real (digits_val fp) / 10 ^ length (filter is_digit fp))
          else None)"
    unfolding mantissa_def takeWhile_dot_lower dropWhile_dot_lower Let_def ip_def r_def ..
  also have "\<dots> = mantissa m"
    unfolding mantissa_def Let_def ip_def [symmetric] r_def [symmetric]
    by (cases r) simp_all
  finally show ?thesis .
qed

lemma floatnumber_lower [simp]: "floatnumber (lower a) = floatnumber a"
proof -
  define m where "m = takeWhile (\<lambda>c. \<not> is_e c) a"
  define r where "r = dropWhile (\<lambda>c. \<not> is_e c) a"
  have "floatnumber (lower a) =
     (case mantissa (lower m) of
        None \<Rightarrow> None
      | Some v \<Rightarrow>
          (case lower r of
             [] \<Rightarrow> Some v
           | _ # ex \<Rightarrow>
               (let (neg, d) = split_sign ex in
                if digitpart d
                then Some (if neg then v / 10 ^ digits_val d else v * 10 ^ digits_val d)
                else None)))"
    unfolding floatnumber_def takeWhile_e_lower dropWhile_e_lower Let_def m_def r_def ..
  also have "\<dots> = floatnumber a"
    unfolding floatnumber_def Let_def m_def [symmetric] r_def [symmetric]
    by (cases r) (simp_all add: split_sign_lower split: option.splits prod.splits)
  finally show ?thesis .
qed















subsection \<open>Type classification\<close>











subsection \<open>Typed lookup\<close>

text \<open>
  Claim C4. When the lookup of a label returns a raw string that classifies as Integer
  or Real and the default \<open>d\<close> is not \<open>None\<close>, \<^verbatim>\<open>get\<close> is the constructor of the
  type of \<open>d\<close> applied to the raw string (which raises \<^verbatim>\<open>ValueError\<close> where the
  constructor does, as \<^verbatim>\<open>int('7.5')\<close>); when the label is absent, \<^verbatim>\<open>get\<close> returns
  \<open>d\<close>. With the file \<^verbatim>\<open>Label 7\<close>, \<^verbatim>\<open>get('Label', default=5)\<close> is the integer 7.
\<close>

theorem get_default_cast:
  assumes "read_label n fs s label = Some (Inr value, s')"
  shows "(\<forall>x. value = Some (Str x)
             \<and> (fdf_type value = Some CHR ''r'' \<or> fdf_type value = Some CHR ''i'') \<and> d \<noteq> PNone
           \<longrightarrow> get n U fs s label unit d wu = Some (py_construct d x, s'))
       \<and> (value = None \<longrightarrow> get n U fs s label unit d wu = Some (Inr d, s'))"
  using assms by (auto simp: get_def get_value_def)

theorem get_default_cast_witness:
  "get 5 siesta_units [''RUN.fdf'' \<mapsto> [''Label 7'']] (new_sile ''RUN.fdf'') ''Label'' None (PInt 5) False
     = Some (Inr (PInt 7), \<lparr>fh = (''RUN.fdf'', 1), parent_fh = []\<rparr>)
   \<and> get 5 siesta_units [''RUN.fdf'' \<mapsto> [''Other 7'']] (new_sile ''RUN.fdf'') ''Label'' None (PInt 5) False
     = Some (Inr (PInt 5), \<lparr>fh = (''RUN.fdf'', 1), parent_fh = []\<rparr>)"
proof -
  have r1: "read_label 5 [''RUN.fdf'' \<mapsto> [''Label 7'']] (new_sile ''RUN.fdf'') ''Label''
      = Some (Inr (Some (Str ''7'')), \<lparr>fh = (''RUN.fdf'', 1), parent_fh = []\<rparr>)"
    by code_simp
  have t1: "fdf_type (Some (Str ''7'')) = Some CHR ''i''"
    by (simp add: fdf_type_def string_eval)
  have c1: "py_construct (PInt 5) ''7'' = Inr (PInt 7)"
    by (simp add: string_eval)
  have r2: "read_label 5 [''RUN.fdf'' \<mapsto> [''Other 7'']] (new_sile ''RUN.fdf'') ''Label''
      = Some (Inr None, \<lparr>fh = (''RUN.fdf'', 1), parent_fh = []\<rparr>)"
    by code_simp
  from get_default_cast [OF r1, of "PInt 5" siesta_units None False] t1 c1
  have "get 5 siesta_units [''RUN.fdf'' \<mapsto> [''Label 7'']] (new_sile ''RUN.fdf'') ''Label'' None (PInt 5) False
     = Some (Inr (PInt 7), \<lparr>fh = (''RUN.fdf'', 1), parent_fh = []\<rparr>)"
    by simp
  moreover from get_default_cast [OF r2, of "PInt 5" siesta_units None False]
  have "get 5 siesta_units [''RUN.fdf'' \<mapsto> [''Other 7'']] (new_sile ''RUN.fdf'') ''Label'' None (PInt 5) False
     = Some (Inr (PInt 5), \<lparr>fh = (''RUN.fdf'', 1), parent_fh = []\<rparr>)"
    by simp
  ultimately show ?thesis by simp
qed



subsection \<open>Label matching\<close>

lemma tolabel_Nil [simp]: "tolabel [] = []"
  by (simp add: tolabel_def)

lemma tolabel_Cons:
  "tolabel (c # a) =
     (if c = CHR ''_'' \<or> c = CHR ''-'' \<or> c = CHR ''.'' then tolabel a
      else lower_char c # tolabel a)"
  by (simp add: tolabel_def)

lemma lower_char_sep:
  "lower_char c = lower_char d \<Longrightarrow>
     (c = CHR ''_'' \<or> c = CHR ''-'' \<or> c = CHR ''.'') = (d = CHR ''_'' \<or> d = CHR ''-'' \<or> d = CHR ''.'')"
  using lower_char_dot [of c] lower_char_minus [of c] lower_char_us [of c]
    lower_char_dot [of d] lower_char_minus [of d] lower_char_us [of d]
  by auto

lemma label_variant_tolabel: "label_variant a b \<Longrightarrow> tolabel a = tolabel b"
proof (induction rule: label_variant.induct)
  case same
  show ?case by simp
next
  case (letter c d a b)
  then show ?case using lower_char_sep [of c d] by (simp add: tolabel_Cons)
next
  case (left c a b)
  then show ?case by (simp add: tolabel_Cons)
next
  case (right c a b)
  then show ?case by (simp add: tolabel_Cons)
qed

lemma scan_tolabel:
  assumes "tolabel l1 = tolabel l2"
  shows "scan n fs l1 first s = scan n fs l2 first s"
proof (induction n arbitrary: first s)
  case 0
  show ?case by simp
next
  case (Suc n)
  have "(\<lambda>first s. scan n fs l1 first s) = (\<lambda>first s. scan n fs l2 first s)"
    using Suc.IH by (intro ext)
  then have eq: "scan n fs l1 = scan n fs l2" by simp
  show ?case unfolding scan.simps(2) assms eq ..
qed

lemma label_variant_example: "label_variant ''MD.FCFirst'' ''md_fcfirst''"
proof -
  have l: "\<And>c d a b. lower_char c = lower_char d \<Longrightarrow> label_variant a b \<Longrightarrow> label_variant (c # a) (d # b)"
    by (rule label_variant.letter)
  have "label_variant ''FCFirst'' ''fcfirst''"
    by (intro l label_variant.same) (simp_all add: lower_char_def is_upper_def)
  then have "label_variant ''FCFirst'' ''_fcfirst''"
    by (rule label_variant.right [rotated]) simp
  then have "label_variant ''.FCFirst'' ''_fcfirst''"
    by (rule label_variant.left [rotated]) simp
  then have "label_variant ''D.FCFirst'' ''d_fcfirst''"
    by (rule l [rotated]) (simp add: lower_char_def is_upper_def)
  then show ?thesis
    by (rule l [rotated]) (simp add: lower_char_def is_upper_def)
qed

text \<open>
  Claim C7. Two labels that differ only by the case of letters and by inserted or removed
  characters \<^verbatim>\<open>_\<close>, \<^verbatim>\<open>-\<close>, \<^verbatim>\<open>.\<close> give the same result, of \<^verbatim>\<open>_read_label\<close> and of
  \<^verbatim>\<open>get\<close>, in every document and from every state of the sile, for scalar labels and
  for blocks alike.
\<close>

theorem label_matching_invariant:
  assumes "label_variant l1 l2"
  shows "read_label n fs s l1 = read_label n fs s l2
       \<and> get n U fs s l1 unit dflt wu = get n U fs s l2 unit dflt wu"
  using scan_tolabel [OF label_variant_tolabel [OF assms]]
  by (simp add: read_label_def get_def)

theorem label_matching_invariant_witness:
  "label_variant ''MD.FCFirst'' ''md_fcfirst''
   \<and> read_label 5 [''RUN.fdf'' \<mapsto> [''MD.FCFirst 3'']] (new_sile ''RUN.fdf'') ''md_fcfirst''
       = Some (Inr (Some (Str ''3'')), \<lparr>fh = (''RUN.fdf'', 1), parent_fh = []\<rparr>)
   \<and> get 5 siesta_units [''RUN.fdf'' \<mapsto> [''MD.FCFirst 3'']] (new_sile ''RUN.fdf'') ''md_fcfirst'' None (PInt 0) False
       = Some (Inr (PInt 3), \<lparr>fh = (''RUN.fdf'', 1), parent_fh = []\<rparr>)"
proof -
  let ?fs = "[''RUN.fdf'' \<mapsto> [''MD.FCFirst 3'']]"
  have r: "read_label 5 ?fs (new_sile ''RUN.fdf'') ''MD.FCFirst''
       = Some (Inr (Some (Str ''3'')), \<lparr>fh = (''RUN.fdf'', 1), parent_fh = []\<rparr>)"
    by code_simp
  have g: "get 5 siesta_units ?fs (new_sile ''RUN.fdf'') ''MD.FCFirst'' None (PInt 0) False
       = Some (Inr (PInt 3), \<lparr>fh = (''RUN.fdf'', 1), parent_fh = []\<rparr>)"
    by code_simp
  note inv = label_matching_invariant [OF label_variant_example, of 5 ?fs "new_sile ''RUN.fdf''"
      siesta_units None "PInt 0" False]
  from inv have e1: "read_label 5 ?fs (new_sile ''RUN.fdf'') ''MD.FCFirst''
      = read_label 5 ?fs (new_sile ''RUN.fdf'') ''md_fcfirst''" by (rule conjunct1)
  from inv have e2: "get 5 siesta_units ?fs (new_sile ''RUN.fdf'') ''MD.FCFirst'' None (PInt 0) False
      = get 5 siesta_units ?fs (new_sile ''RUN.fdf'') ''md_fcfirst'' None (PInt 0) False"
    by (rule conjunct2)
  from e1 [symmetric] r have 1: "read_label 5 ?fs (new_sile ''RUN.fdf'') ''md_fcfirst''
       = Some (Inr (Some (Str ''3'')), \<lparr>fh = (''RUN.fdf'', 1), parent_fh = []\<rparr>)"
    by (rule trans)
  from e2 [symmetric] g have 2: "get 5 siesta_units ?fs (new_sile ''RUN.fdf'') ''md_fcfirst'' None (PInt 0) False
       = Some (Inr (PInt 3), \<lparr>fh = (''RUN.fdf'', 1), parent_fh = []\<rparr>)"
    by (rule trans)
  from label_variant_example 1 2 show ?thesis by (intro conjI)
qed

subsection \<open>The stack of include handles\<close>

lemma readline_parent_fh: "readline fs s = (l, s1) \<Longrightarrow> parent_fh s1 = parent_fh s"
  by (auto simp: readline_def split: prod.splits)

lemma popfile_False: "popfile s = (False, s2) \<Longrightarrow> parent_fh s2 = []"
  by (auto simp: popfile_def split: if_splits)

lemma seek_loop_bottom: "seek_loop s = \<lparr>fh = hd (parent_fh s @ [fh s]), parent_fh = []\<rparr>"
proof (induction "parent_fh s" arbitrary: s rule: rev_induct)
  case Nil
  then show ?case by (simp add: seek_loop.simps [of s] popfile_def)
next
  case (snoc h hs)
  let ?s' = "s\<lparr>fh := last (parent_fh s), parent_fh := butlast (parent_fh s)\<rparr>"
  from snoc.hyps(2) have p: "parent_fh s = hs @ [h]" by simp
  then have hs: "hs = parent_fh ?s'" by simp
  have "seek_loop s = seek_loop ?s'" using p by (simp add: seek_loop.simps [of s] popfile_def)
  also have "\<dots> = \<lparr>fh = hd (parent_fh ?s' @ [fh ?s']), parent_fh = []\<rparr>"
    using hs by (rule snoc.hyps(1))
  also have "hd (parent_fh ?s' @ [fh ?s']) = hd (parent_fh s @ [fh s])"
    using p by (cases hs) simp_all
  finally show ?case .
qed

lemma seek_eq: "seek s = \<lparr>fh = (fst (hd (parent_fh s @ [fh s])), 0), parent_fh = []\<rparr>"
  by (simp add: seek_def seek_loop_bottom)

lemma scan_None_stack:
  "scan n fs label first s = Some (Inr None, s') \<Longrightarrow> (first \<Longrightarrow> parent_fh s = [])
     \<Longrightarrow> parent_fh s' = []"
proof (induction n arbitrary: first s)
  case 0
  then show ?case by simp
next
  case (Suc n)
  obtain l0 s1 where rl: "readline fs s = (l0, s1)" by (cases "readline fs s")
  then have p1: "parent_fh s1 = parent_fh s" by (rule readline_parent_fh)
  from Suc.prems(1) rl
  have "(first \<and> s' = s1) \<or> (\<exists>s2. popfile s1 = (False, s2) \<and> s' = s2)
        \<or> (\<exists>s3. scan n fs label False s3 = Some (Inr None, s'))"
    by (auto simp: scan.simps(2) Let_def split: if_splits prod.splits option.splits sum.splits)
  then show ?case
  proof (elim disjE exE conjE)
    assume "first" "s' = s1"
    with Suc.prems(2) p1 show ?thesis by simp
  next
    fix s2
    assume "popfile s1 = (False, s2)" "s' = s2"
    then show ?thesis using popfile_False by simp
  next
    fix s3
    assume "scan n fs label False s3 = Some (Inr None, s')"
    then show ?thesis by (rule Suc.IH) simp
  qed
qed

text \<open>
  Claim C9 says that the stack of include handles is empty after every lookup. It is not:
  \<^verbatim>\<open>_read_label\<close> returns from inside the included file, and the handle of the
  including file stays on the stack, when the label is found there and when the lookup
  raises there.
\<close>

theorem lookup_stack_counterexample:
  "read_label 5 [''RUN.fdf'' \<mapsto> [''%include inc.fdf''], ''inc.fdf'' \<mapsto> [''Label 7'']]
       (new_sile ''RUN.fdf'') ''Label''
     = Some (Inr (Some (Str ''7'')), \<lparr>fh = (''inc.fdf'', 1), parent_fh = [(''RUN.fdf'', 1)]\<rparr>)
   \<and> read_label 5 [''RUN.fdf'' \<mapsto> [''%include inc.fdf''], ''inc.fdf'' \<mapsto> [''Label < gone.fdf'']]
       (new_sile ''RUN.fdf'') ''Label''
     = Some (Inl IOError, \<lparr>fh = (''inc.fdf'', 1), parent_fh = [(''RUN.fdf'', 1)]\<rparr>)"
  by code_simp

text \<open>
  Claim C9, amended. Every lookup starts by \<^verbatim>\<open>_seek\<close>, which pops the whole stack and
  rewinds the handle of the primary file; so the result of a lookup, of \<^verbatim>\<open>_read_label\<close>
  and of \<^verbatim>\<open>get\<close>, is the same from any two states of the sile over the same primary
  file, whatever earlier lookups left behind. After a lookup that does not find the label
  the stack is empty (and \<^verbatim>\<open>get\<close> returns the default). After a lookup that finds the
  label, or raises, inside an included file, the handles of the including files stay on
  the stack until the next lookup.
\<close>

theorem lookup_stack:
  "parent_fh (seek s) = [] \<and> snd (fh (seek s)) = 0
   \<and> (fst (hd (parent_fh s @ [fh s])) = fst (hd (parent_fh t @ [fh t]))
        \<longrightarrow> read_label n fs s label = read_label n fs t label
          \<and> get n U fs s label unit dflt wu = get n U fs t label unit dflt wu)
   \<and> (\<forall>s'. read_label n fs s label = Some (Inr None, s') \<longrightarrow> parent_fh s' = [])
   \<and> (\<forall>s'. read_label n fs s label = Some (Inr None, s')
          \<longrightarrow> get n U fs s label unit dflt wu = Some (Inr dflt, s') \<and> parent_fh s' = [])"
proof -
  have a: "parent_fh (seek s) = [] \<and> snd (fh (seek s)) = 0" by (simp add: seek_eq)
  have b: "fst (hd (parent_fh s @ [fh s])) = fst (hd (parent_fh t @ [fh t]))
        \<longrightarrow> read_label n fs s label = read_label n fs t label
          \<and> get n U fs s label unit dflt wu = get n U fs t label unit dflt wu"
    by (simp add: read_label_def get_def seek_eq)
  have c: "\<forall>s'. read_label n fs s label = Some (Inr None, s') \<longrightarrow> parent_fh s' = []"
    using scan_None_stack [of n fs label True "seek s"] a by (simp add: read_label_def)
  have d: "\<forall>s'. read_label n fs s label = Some (Inr None, s')
          \<longrightarrow> get n U fs s label unit dflt wu = Some (Inr dflt, s') \<and> parent_fh s' = []"
    using c by (simp add: get_def get_value_def)
  from a b c d show ?thesis by blast
qed

theorem lookup_stack_witness:
  "read_label 5 [''RUN.fdf'' \<mapsto> [''%include inc.fdf''], ''inc.fdf'' \<mapsto> [''Label 7'']]
       \<lparr>fh = (''inc.fdf'', 1), parent_fh = [(''RUN.fdf'', 1)]\<rparr> ''Label''
     = Some (Inr (Some (Str ''7'')), \<lparr>fh = (''inc.fdf'', 1), parent_fh = [(''RUN.fdf'', 1)]\<rparr>)
   \<and> read_label 5 [''RUN.fdf'' \<mapsto> [''%include inc.fdf''], ''inc.fdf'' \<mapsto> [''Label 7'']]
       (new_sile ''RUN.fdf'') ''Other''
     = Some (Inr None, \<lparr>fh = (''RUN.fdf'', 1), parent_fh = []\<rparr>)
   \<and> get 5 siesta_units [''RUN.fdf'' \<mapsto> [''%include inc.fdf''], ''inc.fdf'' \<mapsto> [''Label 7'']]
       (new_sile ''RUN.fdf'') ''Other'' None (PInt 5) False
     = Some (Inr (PInt 5), \<lparr>fh = (''RUN.fdf'', 1), parent_fh = []\<rparr>)"
proof -
  let ?fs = "[''RUN.fdf'' \<mapsto> [''%include inc.fdf''], ''inc.fdf'' \<mapsto> [''Label 7'']]"
  let ?s = "\<lparr>fh = (''inc.fdf'', 1), parent_fh = [(''RUN.fdf'', 1)]\<rparr>"
  let ?t = "new_sile ''RUN.fdf''"
  let ?s' = "\<lparr>fh = (''RUN.fdf'', 1), parent_fh = []\<rparr>"
  have b: "fst (hd (parent_fh ?s @ [fh ?s])) = fst (hd (parent_fh ?t @ [fh ?t]))"
    by (simp add: new_sile_def)
  have r: "read_label 5 ?fs ?t ''Label'' = Some (Inr (Some (Str ''7'')), ?s)"
    by code_simp
  note L1 = lookup_stack [of ?s ?t 5 ?fs "''Label''" siesta_units None "PInt 5" False]
  from L1 have "fst (hd (parent_fh ?s @ [fh ?s])) = fst (hd (parent_fh ?t @ [fh ?t]))
        \<longrightarrow> read_label 5 ?fs ?s ''Label'' = read_label 5 ?fs ?t ''Label''
          \<and> get 5 siesta_units ?fs ?s ''Label'' None (PInt 5) False
            = get 5 siesta_units ?fs ?t ''Label'' None (PInt 5) False"
    by (elim conjE)
  from this b have "read_label 5 ?fs ?s ''Label'' = read_label 5 ?fs ?t ''Label''
          \<and> get 5 siesta_units ?fs ?s ''Label'' None (PInt 5) False
            = get 5 siesta_units ?fs ?t ''Label'' None (PInt 5) False" by (rule mp)
  then have "read_label 5 ?fs ?s ''Label'' = read_label 5 ?fs ?t ''Label''" by (rule conjunct1)
  from this r have 1: "read_label 5 ?fs ?s ''Label'' = Some (Inr (Some (Str ''7'')), ?s)"
    by (rule trans)
  have n: "read_label 5 ?fs ?t ''Other'' = Some (Inr None, ?s')"
    by code_simp
  note L2 = lookup_stack [of ?t ?t 5 ?fs "''Other''" siesta_units None "PInt 5" False]
  from L2 have "\<forall>s'. read_label 5 ?fs ?t ''Other'' = Some (Inr None, s')
          \<longrightarrow> get 5 siesta_units ?fs ?t ''Other'' None (PInt 5) False = Some (Inr (PInt 5), s')
              \<and> parent_fh s' = []"
    by (elim conjE)
  then have "read_label 5 ?fs ?t ''Other'' = Some (Inr None, ?s')
          \<longrightarrow> get 5 siesta_units ?fs ?t ''Other'' None (PInt 5) False = Some (Inr (PInt 5), ?s')
              \<and> parent_fh ?s' = []"
    by (rule spec)
  from this n have "get 5 siesta_units ?fs ?t ''Other'' None (PInt 5) False = Some (Inr (PInt 5), ?s')
              \<and> parent_fh ?s' = []" by (rule mp)
  then have 2: "get 5 siesta_units ?fs ?t ''Other'' None (PInt 5) False = Some (Inr (PInt 5), ?s')"
    by (rule conjunct1)
  from 1 n 2 show ?thesis by (intro conjI)
qed

subsection \<open>The scan of a block body\<close>

declare read_block.simps(2) [simp del]












text \<open>
  A line whose first token normalises to \<^verbatim>\<open>%endblock\<close> ends the scan of a block body.
\<close>

lemma split_acc_first:
  assumes "split_acc cur s = t # ts"
  shows "\<exists>u r. (if cur = [] then dropWhile is_space s else s) = u @ r
               \<and> t = rev cur @ u \<and> (\<forall>c\<in>set u. \<not> is_space c)"
  using assms
proof (induction s arbitrary: cur)
  case Nil
  then show ?case by (auto split: if_splits)
next
  case (Cons c cs)
  show ?case
  proof (cases "is_space c")
    case True
    show ?thesis
    proof (cases "cur = []")
      case e: True
      with Cons.prems True have "split_acc [] cs = t # ts" by simp
      from Cons.IH [OF this] e True show ?thesis by simp
    next
      case False
      with Cons.prems True have "t = rev cur" by simp
      with False True show ?thesis
        by (intro exI [of "\<lambda>b. \<exists>r. _ b r" "[]"] exI [of _ "c # cs"]) simp
    qed
  next
    case False
    with Cons.prems have "split_acc (c # cur) cs = t # ts" by simp
    from Cons.IH [OF this] obtain u r where
      u: "cs = u @ r" "t = rev (c # cur) @ u" "\<forall>c\<in>set u. \<not> is_space c"
      by auto
    show ?thesis
      using False u by (intro exI [of "\<lambda>b. \<exists>r. _ b r" "c # u"] exI [of _ r]) simp
  qed
qed

lemma split_acc_first_nonempty: "split_acc [] s = t # ts \<Longrightarrow> t \<noteq> []"
proof (induction s)
  case Nil
  then show ?case by simp
next
  case (Cons c cs)
  show ?case
  proof (cases "is_space c")
    case True
    with Cons show ?thesis by simp
  next
    case False
    with Cons.prems have "split_acc [c] cs = t # ts" by simp
    from split_acc_first [OF this] show ?thesis by auto
  qed
qed

lemma strip_first_token:
  assumes "split x = t # ts"
  shows "\<exists>r. strip x = t @ r"
proof -
  from assms have s: "split_acc [] x = t # ts" by (simp add: split_def)
  from split_acc_first [OF s] obtain r where
    d: "dropWhile is_space x = t @ r" and ns: "\<forall>c\<in>set t. \<not> is_space c"
    by auto
  from split_acc_first_nonempty [OF s] have ne: "t \<noteq> []" .
  then obtain ys y where t: "t = ys @ [y]"
    by (cases t rule: rev_cases) auto
  with ns have "\<not> is_space y" by simp
  then have "dropWhile is_space (rev t) = rev t"
    by (simp add: t)
  then have "\<exists>a. dropWhile is_space (rev r @ rev t) = a @ rev t"
    by (cases "\<forall>c\<in>set (rev r). is_space c") (auto simp: dropWhile_append)
  then obtain a where "dropWhile is_space (rev (t @ r)) = a @ rev t" by auto
  then show ?thesis
    unfolding strip_def d by (intro exI [of _ "rev a"]) simp
qed

lemma tolabel_append: "tolabel (a @ b) = tolabel a @ tolabel b"
  by (simp add: tolabel_def lower_def)

lemma first_token_endblock:
  assumes "split x = t # ts" and "tolabel t = ''%endblock''"
  shows "is_endblock x"
proof -
  from strip_first_token [OF assms(1)] obtain r where "strip x = t @ r" ..
  then show ?thesis
    by (simp add: is_endblock_def tolabel_append assms(2) startswith_def)
qed



section \<open>The geometry of the fdf file\<close>

lemma fmul_one [simp]: "fmul x (Fin 1) = x"
  by (cases x) simp_all

lemma fadd_zero [simp]: "fadd x (Fin 0) = x"
  by (cases x) simp_all

lemma vscale_one [simp]: "vscale v (Fin 1) = v"
  by (simp add: vscale_def)

lemma vadd_zero3: "length v = 3 \<Longrightarrow> vadd v [Fin 0, Fin 0, Fin 0] = v"
  by (cases v; cases "tl v"; cases "tl (tl v)") (auto simp: vadd_def)

lemma length_vecmat [simp]: "length (vecmat r m) = 3"
  by (simp add: vecmat_def)

lemma broadcast3_zero [simp]: "broadcast3 [Fin 0, Fin 0, Fin 0] = Inr [Fin 0, Fin 0, Fin 0]"
  by (simp add: broadcast3_def)

subsection \<open>The example document\<close>

lemma doc_supercell:
  "read_supercell 20 (fdf_world fractional_doc) False (Some [''fdf''])
     = ([''fdf''], Some (Inr (Some example_cell)))"
  by code_simp

lemma doc_format:
  "self_get 20 (fdf_world fractional_doc) ''AtomicCoordinatesFormat'' None (PStr ''Bohr'') False
     = Some (Inr (PStr ''Fractional''))"
  by code_simp

lemma doc_fractional:
  "coordinates_format (unit_tbl (fdf_world fractional_doc)) (lower ''Fractional'') = Inr Fractional"
  by code_simp

lemma doc_origin:
  "self_get 20 (fdf_world fractional_doc) ''AtomicCoordinatesOrigin'' None PNone False
     = Some (Inr (PList [PStr ''1.0 1.0 1.0'']))"
  by code_simp

lemma doc_atoms:
  "self_get 20 (fdf_world fractional_doc) ''AtomicCoordinatesAndAtomicSpecies'' None PNone False
     = Some (Inr (PList [PStr ''0.5 0.5 0.25 1'']))"
  by code_simp

lemma doc_na:
  "self_get 20 (fdf_world fractional_doc) ''NumberOfAtoms'' None (PInt (int 1)) False
     = Some (Inr (PInt 1))"
  by code_simp

lemma doc_len: "py_len (PList [PStr ''0.5 0.5 0.25 1'']) = Inr 1"
  by (simp add: py_len_def)

lemma doc_geometry:
  "r_geometry_fdf 20 (fdf_world fractional_doc) None
     = Some (Inr (Some \<lparr>xyz = [[Fin 2, Fin (5 / 2), Fin 2]], atoms = [atom_H], sc = example_cell\<rparr>))"
  by code_simp

lemma doc_product:
  "vecmat [Fin (1 / 2), Fin (1 / 2), Fin (1 / 4)] (cell example_cell) = [Fin 1, Fin (3 / 2), Fin 1]"
  by code_simp

subsection \<open>Fractional coordinates\<close>

text \<open>
  The document \<open>fractional_doc\<close> selects the fractional format and holds an
  \<^verbatim>\<open>AtomicCoordinatesOrigin\<close> block: the product of the fractional coordinates and the
  cell is \<open>(1, 3/2, 1)\<close>, and \<^verbatim>\<open>_r_geometry_fdf\<close> returns the position \<open>(2, 5/2, 2)\<close>,
  which is that product plus the origin \<open>(1, 1, 1)\<close>: the origin is not skipped.
\<close>

theorem fractional_origin_counterexample:
  "self_get 20 (fdf_world fractional_doc) ''AtomicCoordinatesFormat'' None (PStr ''Bohr'') False
     = Some (Inr (PStr ''Fractional''))
   \<and> self_get 20 (fdf_world fractional_doc) ''AtomicCoordinatesAndAtomicSpecies'' None PNone False
     = Some (Inr (PList [PStr ''0.5 0.5 0.25 1'']))
   \<and> self_get 20 (fdf_world fractional_doc) ''AtomicCoordinatesOrigin'' None PNone False
     = Some (Inr (PList [PStr ''1.0 1.0 1.0'']))
   \<and> read_supercell 20 (fdf_world fractional_doc) False (Some [''fdf''])
     = ([''fdf''], Some (Inr (Some example_cell)))
   \<and> vecmat [Fin (1 / 2), Fin (1 / 2), Fin (1 / 4)] (cell example_cell) = [Fin 1, Fin (3 / 2), Fin 1]
   \<and> r_geometry_fdf 20 (fdf_world fractional_doc) None
     = Some (Inr (Some \<lparr>xyz = [[Fin 2, Fin (5 / 2), Fin 2]], atoms = [atom_H], sc = example_cell\<rparr>))"
  by (intro conjI doc_format doc_atoms doc_origin doc_supercell doc_product doc_geometry)

text \<open>
  Claim C3. When \<^verbatim>\<open>_r_geometry_fdf\<close> reads the fdf file and
  \<^verbatim>\<open>AtomicCoordinatesFormat\<close> selects the fractional format, the geometry it returns has,
  for each atom, the position: fractional coordinates times the cell matrix of
  \<^verbatim>\<open>read_supercell(order=['fdf'])\<close>, with no scalar factor, when the file has no
  \<^verbatim>\<open>AtomicCoordinatesOrigin\<close> or the caller passes \<^verbatim>\<open>origin=False\<close>; and that product plus
  the first three numbers of the first line of \<^verbatim>\<open>AtomicCoordinatesOrigin\<close>, taken as they
  are (not multiplied by the cell), otherwise.
\<close>

theorem fractional_positions:
  assumes sc: "read_supercell n w False (Some [''fdf'']) = (called, Some (Inr (Some c)))"
    and fmt: "self_get n w ''AtomicCoordinatesFormat'' None (PStr ''Bohr'') False = Some (Inr (PStr x))"
    and frac: "coordinates_format (unit_tbl w) (lower x) = Inr Fractional"
    and lor: "self_get n w ''AtomicCoordinatesOrigin'' None PNone False = Some (Inr lor)"
    and atms: "self_get n w ''AtomicCoordinatesAndAtomicSpecies'' None PNone False = Some (Inr atms)"
    and len: "py_len atms = Inr len"
    and na: "self_get n w ''NumberOfAtoms'' None (PInt (int len)) False = Some (Inr (PInt na))"
    and g: "r_geometry_fdf n w origin = Some (Inr (Some g))"
  shows "\<exists>rows. atom_rows atms [0..<nat na] = Inr rows
     \<and> (\<not> truthy lor \<or> origin = Some False
          \<longrightarrow> xyz g = map (\<lambda>(r, k). vecmat r (cell c)) rows)
     \<and> (truthy lor \<and> origin \<noteq> Some False
          \<longrightarrow> (\<exists>ks v og. item_split lor 0 = Inr ks \<and> float_list (take 3 ks) = Inr v
                 \<and> broadcast3 v = Inr og
                 \<and> xyz g = map (\<lambda>(r, k). vadd (vecmat r (cell c)) og) rows))"
proof -
  have pn: "atms \<noteq> PNone" using len by (auto simp: py_len_def)
  show ?thesis
  proof (cases "truthy lor \<and> origin \<noteq> Some False")
    case True
    from g True pn show ?thesis
      by (auto simp: r_geometry_fdf_def sc fmt frac lor atms len na
          then_do_eq_Inr sbind_eq_Inr as_int_def as_number_def split: if_splits option.splits)
  next
    case False
    from g False pn show ?thesis
      by (auto simp: r_geometry_fdf_def sc fmt frac lor atms len na
          then_do_eq_Inr sbind_eq_Inr as_int_def as_number_def vadd_zero3 split: if_splits option.splits)
  qed
qed

theorem fractional_positions_witness:
  "read_supercell 20 (fdf_world fractional_doc) False (Some [''fdf''])
     = ([''fdf''], Some (Inr (Some example_cell)))
   \<and> coordinates_format (unit_tbl (fdf_world fractional_doc)) (lower ''Fractional'') = Inr Fractional
   \<and> r_geometry_fdf 20 (fdf_world fractional_doc) None
     = Some (Inr (Some \<lparr>xyz = [[Fin 2, Fin (5 / 2), Fin 2]], atoms = [atom_H], sc = example_cell\<rparr>))
   \<and> (\<exists>rows. atom_rows (PList [PStr ''0.5 0.5 0.25 1'']) [0..<nat 1] = Inr rows
     \<and> (\<not> truthy (PList [PStr ''1.0 1.0 1.0'']) \<or> None = Some False
          \<longrightarrow> xyz \<lparr>xyz = [[Fin 2, Fin (5 / 2), Fin 2]], atoms = [atom_H], sc = example_cell\<rparr>
              = map (\<lambda>(r, k). vecmat r (cell example_cell)) rows)
     \<and> (truthy (PList [PStr ''1.0 1.0 1.0'']) \<and> None \<noteq> Some False
          \<longrightarrow> (\<exists>ks v og. item_split (PList [PStr ''1.0 1.0 1.0'']) 0 = Inr ks
                 \<and> float_list (take 3 ks) = Inr v
                 \<and> broadcast3 v = Inr og
                 \<and> xyz \<lparr>xyz = [[Fin 2, Fin (5 / 2), Fin 2]], atoms = [atom_H], sc = example_cell\<rparr>
                     = map (\<lambda>(r, k). vadd (vecmat r (cell example_cell)) og) rows)))"
  by (intro conjI doc_supercell doc_fractional doc_geometry
      fractional_positions [OF doc_supercell doc_format doc_fractional doc_origin doc_atoms
        doc_len doc_na doc_geometry])

section \<open>Reconciliation of a sparse matrix with a geometry\<close>

text \<open>
  When the counts of atoms differ and the counts of orbitals agree, the geometry of the
  matrix is replaced by the given one and the call returns \<^verbatim>\<open>True\<close>, with no warning. When
  both counts differ the warning is issued.
\<close>

lemma replace_geom_wholesale:
  "geometry_na (geom spgeom) \<noteq> geometry_na g \<Longrightarrow> geometry_no (geom spgeom) = geometry_no g
   \<Longrightarrow> SpGeom_replace_geom spgeom g = ([], Inr (True, spgeom\<lparr>geom := g\<rparr>))"
  by (simp add: SpGeom_replace_geom_def)

lemma replace_geom_warns:
  "geometry_na (geom spgeom) \<noteq> geometry_na g \<Longrightarrow> geometry_no (geom spgeom) \<noteq> geometry_no g
   \<Longrightarrow> fst (SpGeom_replace_geom spgeom g) = [''cannot replace geometry'']"
  by (simp add: SpGeom_replace_geom_def Let_def)

text \<open>
  Claim C2. When the counts of atoms differ and the counts of orbitals differ too,
  \<^verbatim>\<open>_SpGeom_replace_geom\<close> issues the warning that it cannot replace the geometry and then
  runs the loop that replaces the atoms all the same. With a matrix on two hydrogen atoms
  and a geometry of one carbon atom the call returns \<^verbatim>\<open>False\<close> and leaves the matrix with a
  changed geometry: its first atom is now a carbon atom with the orbital of hydrogen.
  With a matrix on one hydrogen atom and a geometry of two carbon atoms the call raises
  \<^verbatim>\<open>IndexError\<close> after the warning.
\<close>

theorem replace_geom_mismatch:
  "geometry_na (sites [atom_H, atom_H]) = 2 \<and> geometry_na (sites [atom_C]) = 1
   \<and> geometry_no (sites [atom_H, atom_H]) = 2 \<and> geometry_no (sites [atom_C]) = 4
   \<and> SpGeom_replace_geom \<lparr>geom = sites [atom_H, atom_H], matrix = ()\<rparr> (sites [atom_C])
       = ([''cannot replace geometry''],
          Inr (False, \<lparr>geom = (sites [atom_H, atom_H])
                          \<lparr>atoms := [atom_C\<lparr>orbital := orbital atom_H\<rparr>, atom_H]\<rparr>,
                      matrix = ()\<rparr>))
   \<and> atom_C\<lparr>orbital := orbital atom_H\<rparr> \<noteq> atom_H
   \<and> geometry_na (sites [atom_H]) = 1 \<and> geometry_na (sites [atom_C, atom_C]) = 2
   \<and> geometry_no (sites [atom_H]) = 1 \<and> geometry_no (sites [atom_C, atom_C]) = 8
   \<and> SpGeom_replace_geom \<lparr>geom = sites [atom_H], matrix = ()\<rparr> (sites [atom_C, atom_C])
       = ([''cannot replace geometry''], Inl IndexError)"
  by (simp add: SpGeom_replace_geom_def geometry_na_def geometry_no_def atom_no_def sites_def
      atom_H_def atom_C_def atoms_iter_def atoms_replace_def Let_def upt_rec)

section \<open>The order of the sources\<close>

lemma resolve_first:
  assumes "\<forall>p\<in>set pre. readers (lower p) = Some (Some (Inr None))"
    and "readers (lower f) = Some v" and "v \<noteq> Some (Inr None)"
  shows "resolve readers (pre @ f # post) = (map lower pre @ [lower f], v)"
  using assms by (induction pre) simp_all

lemma resolve_all_None:
  assumes "\<forall>p\<in>set order. readers (lower p) = Some (Some (Inr None))"
  shows "resolve readers order = (map lower order, Some (Inr None))"
  using assms by (induction order) simp_all

lemma doc_xv: "r_supercell_xv 20 (fdf_world fractional_doc) = Some (Inr None)"
  by code_simp

lemma doc_nc: "r_supercell_nc 20 (fdf_world fractional_doc) = Some (Inr None)"
  by code_simp

lemma doc_fdf: "r_supercell_fdf 20 (fdf_world fractional_doc) = Some (Inr (Some example_cell))"
  by code_simp

lemma doc_tshs: "tofile_label 20 (fdf_world fractional_doc) ''.TSHS'' = Some (Inr ''siesta.TSHS'')"
  by code_simp

lemma doc_isfile: "\<not> isfile (fdf_world fractional_doc) f"
  by (simp add: fdf_world_def)

text \<open>
  Claim C1. Every \<^verbatim>\<open>read_X\<close> runs the loop \<open>resolve\<close> over its order list. If every
  source before \<open>f\<close> in the list yields \<^verbatim>\<open>None\<close> and the source \<open>f\<close> yields something else,
  the call ends with the outcome of \<open>f\<close> after calling the readers up to \<open>f\<close> and no
  other, whatever follows \<open>f\<close> in the list; if every source of the list yields \<^verbatim>\<open>None\<close>
  the call returns \<^verbatim>\<open>None\<close>. In particular \<^verbatim>\<open>read_hamiltonian(order=['TSHS'])\<close> returns
  \<^verbatim>\<open>None\<close> when the file \<^verbatim>\<open><SystemLabel>.TSHS\<close> does not exist, and calls no other reader.
\<close>

theorem resolution_order:
  "((\<forall>p\<in>set pre. readers (lower p) = Some (Some (Inr None)))
      \<and> readers (lower f) = Some v \<and> v \<noteq> Some (Inr None)
     \<longrightarrow> resolve readers (pre @ f # post) = (map lower pre @ [lower f], v))
   \<and> ((\<forall>p\<in>set order. readers (lower p) = Some (Some (Inr None)))
     \<longrightarrow> resolve readers order = (map lower order, Some (Inr None)))
   \<and> (tofile_label n w ''.TSHS'' = Some (Inr path) \<and> \<not> isfile w path
     \<longrightarrow> read_hamiltonian n w M (Some [''TSHS'']) = ([''tshs''], Some (Inr None)))"
proof (intro conjI impI)
  assume "(\<forall>p\<in>set pre. readers (lower p) = Some (Some (Inr None)))
      \<and> readers (lower f) = Some v \<and> v \<noteq> Some (Inr None)"
  then show "resolve readers (pre @ f # post) = (map lower pre @ [lower f], v)"
    using resolve_first [of pre readers f v post] by blast
next
  assume "\<forall>p\<in>set order. readers (lower p) = Some (Some (Inr None))"
  then show "resolve readers order = (map lower order, Some (Inr None))"
    by (rule resolve_all_None)
next
  assume a: "tofile_label n w ''.TSHS'' = Some (Inr path) \<and> \<not> isfile w path"
  then show "read_hamiltonian n w M (Some [''TSHS'']) = ([''tshs''], Some (Inr None))"
    by (simp add: read_hamiltonian_def r_hamiltonian_tshs_def lower_def lower_char_def
        is_upper_def)
qed

theorem resolution_order_witness:
  "read_supercell 20 (fdf_world fractional_doc) True (Some [''XV'', ''nc'', ''fdf'', ''XV'', ''fdf''])
     = ([''xv'', ''nc'', ''fdf''], Some (Inr (Some example_cell)))
   \<and> read_supercell 20 (fdf_world fractional_doc) True (Some [''XV'', ''nc'', ''XV''])
     = ([''xv'', ''nc'', ''xv''], Some (Inr None))
   \<and> read_hamiltonian 20 (fdf_world fractional_doc) no_matrix_files (Some [''TSHS''])
     = ([''tshs''], Some (Inr None))"
proof -
  let ?w = "fdf_world fractional_doc"
  let ?t = "[''fdf'' \<mapsto> r_supercell_fdf 20 ?w, ''nc'' \<mapsto> r_supercell_nc 20 ?w,
             ''xv'' \<mapsto> r_supercell_xv 20 ?w]"
  note t = resolution_order [where pre = "[''XV'', ''nc'']" and readers = ?t and f = "''fdf''"
      and v = "Some (Inr (Some example_cell))" and post = "[''XV'', ''fdf'']"
      and order = "[''XV'', ''nc'', ''XV'']" and n = 20 and w = ?w and path = "''siesta.TSHS''"
      and M = no_matrix_files]
  have pre: "\<forall>p\<in>set [''XV'', ''nc'']. ?t (lower p) = Some (Some (Inr None))"
    by (simp add: lower_def lower_char_def is_upper_def doc_xv doc_nc)
  have f: "?t (lower ''fdf'') = Some (Some (Inr (Some example_cell)))"
    by (simp add: lower_def lower_char_def is_upper_def doc_fdf)
  have v: "Some (Inr (Some example_cell)) \<noteq> (Some (Inr None) :: (error + supercell option) option)"
    by simp
  have ord: "\<forall>p\<in>set [''XV'', ''nc'', ''XV'']. ?t (lower p) = Some (Some (Inr None))"
    by (simp add: lower_def lower_char_def is_upper_def doc_xv doc_nc)
  have 1: "resolve ?t ([''XV'', ''nc''] @ ''fdf'' # [''XV'', ''fdf''])
             = (map lower [''XV'', ''nc''] @ [lower ''fdf''], Some (Inr (Some example_cell)))"
    by (rule t [THEN conjunct1, THEN mp]) (intro conjI pre f v)
  have 2: "resolve ?t [''XV'', ''nc'', ''XV''] = (map lower [''XV'', ''nc'', ''XV''], Some (Inr None))"
    by (rule t [THEN conjunct2, THEN conjunct1, THEN mp]) (rule ord)
  have 3: "read_hamiltonian 20 ?w no_matrix_files (Some [''TSHS'']) = ([''tshs''], Some (Inr None))"
    by (rule t [THEN conjunct2, THEN conjunct2, THEN mp]) (intro conjI doc_tshs doc_isfile)
  from 1 have r1: "read_supercell 20 ?w True (Some [''XV'', ''nc'', ''fdf'', ''XV'', ''fdf''])
     = ([''xv'', ''nc'', ''fdf''], Some (Inr (Some example_cell)))"
    unfolding read_supercell_def by (simp add: lower_def lower_char_def is_upper_def)
  from 2 have r2: "read_supercell 20 ?w True (Some [''XV'', ''nc'', ''XV''])
     = ([''xv'', ''nc'', ''xv''], Some (Inr None))"
    unfolding read_supercell_def by (simp add: lower_def lower_char_def is_upper_def)
  from r1 r2 3 show ?thesis by (intro conjI)
qed

section \<open>The Hessian of a replicated cell\<close>

lemma supercell_hessian_raises: "\<exists>e. supercell_hessian X g a s = Inl e"
  unfolding supercell_hessian_def
  by (cases "small_geometry X g a s"; cases "tiled_close X (fst (projr (small_geometry X g a s))) g
        (snd (projr (small_geometry X g a s))) a s")
     (auto simp: sbind_def split: prod.splits)

lemma supercell_hessian_not_Inr [simp]: "supercell_hessian X g a s \<noteq> Inr H"
  using supercell_hessian_raises [of X g a s] by auto

lemma r_hessian_fc_supercell:
  assumes "kw_supercell kw = Some supercell" and "\<exists>k\<in>set supercell. k \<noteq> 1"
  shows "r_hessian_fc n w X kw \<noteq> Some (Inr (Some H))"
proof -
  from assms(2) have "\<not> list_all (\<lambda>k. k = 1) supercell"
    by (auto simp: list_all_iff)
  then show ?thesis
    unfolding r_hessian_fc_def
    by (auto simp: assms(1) then_do_eq_Inr Let_def split: option.splits prod.splits)
qed

lemma resolve_single:
  "snd (resolve [k \<mapsto> r] order) = r \<or> snd (resolve [k \<mapsto> r] order) = Some (Inl AttributeError)
   \<or> snd (resolve [k \<mapsto> r] order) = Some (Inr None)"
  by (induction order) (auto split: prod.splits)

lemma read_hessian_default: "read_hessian n w X kw None = ([''fc''], r_hessian_fc n w X kw)"
  by (simp add: read_hessian_def lower_def lower_char_def is_upper_def)

lemma r_hessian_fc_no_file:
  "tofile_label n w ''.FC'' = Some (Inr path) \<Longrightarrow> \<not> isfile w path
   \<Longrightarrow> r_hessian_fc n w X kw = Some (Inr None)"
  by (simp add: r_hessian_fc_def r_force_constant_fc_def)

lemma r_hessian_fc_not_None:
  "r_force_constant_fc n w X kw = Some (Inr (Some fc)) \<Longrightarrow> r_hessian_fc n w X kw \<noteq> Some (Inr None)"
  unfolding r_hessian_fc_def
  by (auto simp: then_do_eq_Inr Let_def split: option.splits prod.splits if_splits)

lemma doc_fc: "tofile_label 20 (fdf_world fractional_doc) ''.FC'' = Some (Inr ''siesta.FC'')"
  by code_simp

text \<open>
  With the supercell \<open>(2, 1, 1)\<close> and no \<^verbatim>\<open>.FC\<close> file, \<^verbatim>\<open>read_hessian\<close> returns \<^verbatim>\<open>None\<close>: it
  raises no error.
\<close>

theorem hessian_supercell_counterexample:
  "kw_supercell tiled_kw = Some [2, 1, 1]
   \<and> tofile_label 20 (fdf_world fractional_doc) ''.FC'' = Some (Inr ''siesta.FC'')
   \<and> \<not> isfile (fdf_world fractional_doc) ''siesta.FC''
   \<and> read_hessian 20 (fdf_world fractional_doc) unit_numerics tiled_kw None
       = ([''fc''], Some (Inr None))"
proof (intro conjI)
  show "kw_supercell tiled_kw = Some [2, 1, 1]"
    by (simp add: tiled_kw_def)
  show "tofile_label 20 (fdf_world fractional_doc) ''.FC'' = Some (Inr ''siesta.FC'')"
    by (rule doc_fc)
  show "\<not> isfile (fdf_world fractional_doc) ''siesta.FC''"
    by (rule doc_isfile)
  show "read_hessian 20 (fdf_world fractional_doc) unit_numerics tiled_kw None
       = ([''fc''], Some (Inr None))"
    unfolding read_hessian_default r_hessian_fc_no_file [OF doc_fc doc_isfile] ..
qed

text \<open>
  Claim C8. For every call of \<^verbatim>\<open>read_hessian\<close> with a supercell argument of which a
  component differs from 1, and every order list, the call never returns a Hessian.
  With the default order the outcome is that of \<^verbatim>\<open>_r_hessian_fc\<close>: it is \<^verbatim>\<open>None\<close> when the
  file \<^verbatim>\<open><SystemLabel>.FC\<close> does not exist, and once \<^verbatim>\<open>_r_force_constant_fc\<close> has returned
  force constants the call raises an error (or a lookup in the fdf file does not
  return).
\<close>

theorem hessian_supercell:
  assumes "kw_supercell kw = Some supercell" and "\<exists>k\<in>set supercell. k \<noteq> 1"
  shows "(\<forall>H. snd (read_hessian n w X kw order) \<noteq> Some (Inr (Some H)))
    \<and> read_hessian n w X kw None = ([''fc''], r_hessian_fc n w X kw)
    \<and> (tofile_label n w ''.FC'' = Some (Inr path) \<and> \<not> isfile w path
         \<longrightarrow> r_hessian_fc n w X kw = Some (Inr None))
    \<and> (r_force_constant_fc n w X kw = Some (Inr (Some fc))
         \<longrightarrow> r_hessian_fc n w X kw = None \<or> (\<exists>e. r_hessian_fc n w X kw = Some (Inl e)))"
proof (intro conjI allI impI)
  fix H
  have r: "r_hessian_fc n w X kw \<noteq> Some (Inr (Some H))"
    using assms by (rule r_hessian_fc_supercell)
  show "snd (read_hessian n w X kw order) \<noteq> Some (Inr (Some H))"
    unfolding read_hessian_def
    using r resolve_single [of "''fc''" "r_hessian_fc n w X kw"
        "case order of Some ord \<Rightarrow> ord | None \<Rightarrow> [''FC'']"]
    by auto
next
  show "read_hessian n w X kw None = ([''fc''], r_hessian_fc n w X kw)"
    by (rule read_hessian_default)
next
  assume "tofile_label n w ''.FC'' = Some (Inr path) \<and> \<not> isfile w path"
  then show "r_hessian_fc n w X kw = Some (Inr None)"
    using r_hessian_fc_no_file by blast
next
  assume a: "r_force_constant_fc n w X kw = Some (Inr (Some fc))"
  show "r_hessian_fc n w X kw = None \<or> (\<exists>e. r_hessian_fc n w X kw = Some (Inl e))"
  proof (cases "r_hessian_fc n w X kw")
    case None
    then show ?thesis by simp
  next
    case (Some r)
    show ?thesis
    proof (cases r)
      case (Inl e)
      with Some show ?thesis by simp
    next
      case (Inr h)
      show ?thesis
      proof (cases h)
        case None
        with Some Inr r_hessian_fc_not_None [OF a] show ?thesis by simp
      next
        case (Some H)
        with \<open>r_hessian_fc n w X kw = Some r\<close> Inr r_hessian_fc_supercell [OF assms, of n w X H]
        show ?thesis by simp
      qed
    qed
  qed
qed

lemma fc_world_force_constant:
  "r_force_constant_fc 20 fc_world unit_numerics tiled_kw = Some (Inr (Some ()))"
  by code_simp

lemma fc_world_hessian:
  "r_hessian_fc 20 fc_world unit_numerics tiled_kw = Some (Inl NotImplementedError)"
  by code_simp

theorem hessian_supercell_witness:
  "(\<forall>H. snd (read_hessian 20 fc_world unit_numerics tiled_kw (Some [''FC''])) \<noteq> Some (Inr (Some H)))
   \<and> read_hessian 20 fc_world unit_numerics tiled_kw None = ([''fc''], Some (Inl NotImplementedError))
   \<and> r_hessian_fc 20 (fdf_world fractional_doc) unit_numerics tiled_kw = Some (Inr None)
   \<and> r_force_constant_fc 20 fc_world unit_numerics tiled_kw = Some (Inr (Some ()))
   \<and> (r_hessian_fc 20 fc_world unit_numerics tiled_kw = None
        \<or> (\<exists>e. r_hessian_fc 20 fc_world unit_numerics tiled_kw = Some (Inl e)))"
proof -
  have k: "kw_supercell tiled_kw = Some [2, 1, 1]"
    by (simp add: tiled_kw_def)
  have e: "\<exists>k\<in>set [2, 1, 1 :: int]. k \<noteq> 1"
    by simp
  note a = hessian_supercell [OF k e, where n = 20 and w = fc_world and X = unit_numerics
      and order = "Some [''FC'']" and fc = "()"]
  note b = hessian_supercell [OF k e, where n = 20 and w = "fdf_world fractional_doc"
      and X = unit_numerics and path = "''siesta.FC''"]
  from a have 1: "\<forall>H. snd (read_hessian 20 fc_world unit_numerics tiled_kw (Some [''FC'']))
      \<noteq> Some (Inr (Some H))"
    by (rule conjunct1)
  from a have "read_hessian 20 fc_world unit_numerics tiled_kw None
      = ([''fc''], r_hessian_fc 20 fc_world unit_numerics tiled_kw)"
    by (rule conjunct2 [THEN conjunct1])
  then have 2: "read_hessian 20 fc_world unit_numerics tiled_kw None
      = ([''fc''], Some (Inl NotImplementedError))"
    unfolding fc_world_hessian .
  have 3: "r_hessian_fc 20 (fdf_world fractional_doc) unit_numerics tiled_kw = Some (Inr None)"
    by (rule b [THEN conjunct2, THEN conjunct2, THEN conjunct1, THEN mp])
      (intro conjI doc_fc doc_isfile)
  have 5: "r_hessian_fc 20 fc_world unit_numerics tiled_kw = None
        \<or> (\<exists>e. r_hessian_fc 20 fc_world unit_numerics tiled_kw = Some (Inl e))"
    by (rule a [THEN conjunct2, THEN conjunct2, THEN conjunct2, THEN mp])
      (rule fc_world_force_constant)
  from 1 2 3 fc_world_force_constant 5 show ?thesis
    by (intro conjI)
qed

end
